theory Spec2Isabelle
  imports Main "HOL-Library.AList" "HOL-Library.Word"
begin

section \<open>Payment confirmation and resource access gate\<close>

text \<open>
  A shallow embedding of the Payoneer notification handler
  (\<^verbatim>\<open>backend/routes/payment.js\<close>, second module), the in-memory store
  (\<^verbatim>\<open>models/user.js\<close>), the plan catalogue (\<^verbatim>\<open>config/plans.js\<close>), the
  authentication middleware (\<^verbatim>\<open>middleware/auth.js\<close>) and the download route
  (\<^verbatim>\<open>backend/routes/articles.js\<close>).

  Conventions. A JavaScript string is a \<^typ>\<open>string\<close>: the bytes of its
  UTF-8 encoding. A value that may be \<^verbatim>\<open>undefined\<close> is a
  \<^typ>\<open>string option\<close>. The clock (\<^verbatim>\<open>new Date()\<close>) is read once per
  operation and is a parameter (\<open>now\<close>, or \<open>clock\<close> of the environment of
  a call), in milliseconds. The identifiers
  \<^verbatim>\<open>Math.random().toString(36).substring(7)\<close> are drawn from a parameter
  \<open>rnd\<close>: \<open>rnd i\<close> is the \<open>i\<close>-th identifier drawn during one call.
  Nothing is assumed about them; in particular two draws may collide.
\<close>

subsection \<open>JavaScript values\<close>

text \<open>\<^verbatim>\<open>!v\<close> for a value that is a string or undefined: the empty string and
  undefined are falsy.\<close>

definition truthy :: "string option \<Rightarrow> bool" where
  "truthy v = (case v of None \<Rightarrow> False | Some s \<Rightarrow> s \<noteq> [])"

text \<open>The values stored in the details of an audit entry. \<open>NonFinite\<close> is the
  number \<^verbatim>\<open>NaN\<close> or an infinity.\<close>

datatype jsval = Undefined | Str string | Num int | NonFinite | Date int

definition opt_str :: "string option \<Rightarrow> jsval" where
  "opt_str v = (case v of None \<Rightarrow> Undefined | Some s \<Rightarrow> Str s)"

definition opt_num :: "int option \<Rightarrow> jsval" where
  "opt_num v = (case v of None \<Rightarrow> NonFinite | Some n \<Rightarrow> Num n)"

subsection \<open>The amount of a notification, in cents\<close>

text \<open>
  \<^verbatim>\<open>Math.round(parseFloat(amount) * 100)\<close>, computed as the code computes it,
  in IEEE 754 double precision.

  \<^verbatim>\<open>parseFloat\<close> skips leading white space and reads the longest prefix that
  is a decimal literal: a sign, digits, a fraction, an exponent. White space is
  the white space and the line terminators of ECMAScript; the characters beyond
  ASCII appear as the bytes of their UTF-8 encoding.
\<close>

definition white_space :: "string list" where
  "white_space =
     [[CHR 0x09], [CHR 0x0A], [CHR 0x0B], [CHR 0x0C], [CHR 0x0D], [CHR 0x20],
      [CHR 0xC2, CHR 0xA0], [CHR 0xE1, CHR 0x9A, CHR 0x80],
      [CHR 0xE2, CHR 0x80, CHR 0x80], [CHR 0xE2, CHR 0x80, CHR 0x81],
      [CHR 0xE2, CHR 0x80, CHR 0x82], [CHR 0xE2, CHR 0x80, CHR 0x83],
      [CHR 0xE2, CHR 0x80, CHR 0x84], [CHR 0xE2, CHR 0x80, CHR 0x85],
      [CHR 0xE2, CHR 0x80, CHR 0x86], [CHR 0xE2, CHR 0x80, CHR 0x87],
      [CHR 0xE2, CHR 0x80, CHR 0x88], [CHR 0xE2, CHR 0x80, CHR 0x89],
      [CHR 0xE2, CHR 0x80, CHR 0x8A], [CHR 0xE2, CHR 0x80, CHR 0xA8],
      [CHR 0xE2, CHR 0x80, CHR 0xA9], [CHR 0xE2, CHR 0x80, CHR 0xAF],
      [CHR 0xE2, CHR 0x81, CHR 0x9F], [CHR 0xE3, CHR 0x80, CHR 0x80],
      [CHR 0xEF, CHR 0xBB, CHR 0xBF]]"

definition strip_space :: "string \<Rightarrow> string option" where
  \<comment> \<open>the rest of the string after one white space character at its front\<close>
  "strip_space s =
     map_option (\<lambda>p. drop (length p) s) (find (\<lambda>p. take (length p) s = p) white_space)"

primrec skip_spaces :: "nat \<Rightarrow> string \<Rightarrow> string" where
  "skip_spaces 0 s = s"
| "skip_spaces (Suc n) s = (case strip_space s of None \<Rightarrow> s | Some r \<Rightarrow> skip_spaces n r)"

definition skip_space :: "string \<Rightarrow> string" where
  \<comment> \<open>every step removes a byte at least, so \<open>length s\<close> steps are enough\<close>
  "skip_space s = skip_spaces (length s) s"

definition is_digit :: "char \<Rightarrow> bool" where
  "is_digit c = (c \<in> set ''0123456789'')"

definition digit_val :: "char \<Rightarrow> nat" where
  "digit_val c = of_char c - 48"

definition digits_val :: "string \<Rightarrow> nat" where
  "digits_val ds = foldl (\<lambda>n c. 10 * n + digit_val c) 0 ds"

definition read_sign :: "string \<Rightarrow> int \<times> string" where
  "read_sign s =
     (case s of
        [] \<Rightarrow> (1, [])
      | c # r \<Rightarrow> if c = CHR ''-'' then (- 1, r) else if c = CHR ''+'' then (1, r) else (1, s))"

definition read_exponent :: "string \<Rightarrow> int" where
  "read_exponent s =
     (case s of
        [] \<Rightarrow> 0
      | c # r \<Rightarrow>
          if c = CHR ''e'' \<or> c = CHR ''E'' then
            (let (sg, r') = read_sign r; ds = takeWhile is_digit r'
             in if ds = [] then 0 else sg * int (digits_val ds))
          else 0)"

text \<open>
  The literal at the front of the string: its sign and its exact value
  \<open>m * 10 ^ t\<close>, or \<open>None\<close> where there is no decimal literal
  (\<^verbatim>\<open>parseFloat\<close> then returns \<^verbatim>\<open>NaN\<close>, or an infinity for the literal
  \<^verbatim>\<open>Infinity\<close>).
\<close>

definition decimal_literal :: "string \<Rightarrow> (int \<times> nat \<times> int) option" where
  "decimal_literal amount =
     (let (sg, s) = read_sign (skip_space amount);
          ip = takeWhile is_digit s;
          s' = dropWhile is_digit s;
          fp = (case s' of [] \<Rightarrow> [] | c # r \<Rightarrow> if c = CHR ''.'' then takeWhile is_digit r else []);
          s'' = (case s' of [] \<Rightarrow> [] | c # r \<Rightarrow> if c = CHR ''.'' then dropWhile is_digit r else s')
      in if ip = [] \<and> fp = [] then None
         else Some (sg, digits_val (ip @ fp), read_exponent s'' - int (length fp)))"

text \<open>
  Doubles. A finite double is \<open>\<plusminus> m * 2 ^ u\<close> with \<open>m < 2 ^ 53\<close> and
  \<open>- 1074 \<le> u\<close>; its magnitude is the pair \<open>(m, u)\<close>. \<open>to_double n d\<close> is the
  double nearest to the fraction \<open>n / d\<close>, ties to the even mantissa, as the
  conversion of a decimal literal (correctly rounded, as V8 does it) and the
  multiplication produce it; the result is \<open>None\<close> where the nearest value
  is beyond the largest double, that is, an infinity.
\<close>

fun bit_length :: "nat \<Rightarrow> nat" where
  "bit_length n = (if n = 0 then 0 else Suc (bit_length (n div 2)))"

declare bit_length.simps [simp del]

definition floor_log2 :: "nat \<Rightarrow> nat \<Rightarrow> int" where
  \<comment> \<open>\<open>\<lfloor>log\<^sub>2 (n / d)\<rfloor>\<close> for positive \<open>n\<close> and \<open>d\<close>\<close>
  "floor_log2 n d =
     (let k = int (bit_length n) - int (bit_length d)
      in if d * 2 ^ nat k \<le> n * 2 ^ nat (- k) then k else k - 1)"

definition round_half_even :: "nat \<Rightarrow> nat \<Rightarrow> nat" where
  \<comment> \<open>the integer nearest to \<open>a / b\<close>, a tie going to the even one\<close>
  "round_half_even a b =
     (let q = a div b; r = a mod b
      in if 2 * r < b then q else if b < 2 * r then q + 1 else if even q then q else q + 1)"

definition to_double :: "nat \<Rightarrow> nat \<Rightarrow> (nat \<times> int) option" where
  "to_double n d =
     (if n = 0 then Some (0, 0)
      else
        (let u = max (floor_log2 n d - 52) (- 1074);
             m = round_half_even (n * 2 ^ nat (- u)) (d * 2 ^ nat u)
         in if 2 ^ 1024 \<le> m * 2 ^ nat u then None else Some (m, u)))"

definition parseFloat :: "string \<Rightarrow> (int \<times> nat \<times> int) option" where
  \<comment> \<open>sign and magnitude of the double; \<open>None\<close> is \<^verbatim>\<open>NaN\<close> or an infinity\<close>
  "parseFloat amount =
     (case decimal_literal amount of
        None \<Rightarrow> None
      | Some (sg, m, t) \<Rightarrow>
          map_option (\<lambda>(m', u). (sg, m', u))
            (to_double (m * 10 ^ nat t) (10 ^ nat (- t))))"

definition times_100 :: "nat \<times> int \<Rightarrow> (nat \<times> int) option" where
  \<comment> \<open>the double product \<^verbatim>\<open>x * 100\<close>\<close>
  "times_100 x = to_double (100 * fst x * 2 ^ nat (snd x)) (2 ^ nat (- snd x))"

definition Math_round :: "int \<Rightarrow> nat \<times> int \<Rightarrow> int" where
  \<comment> \<open>\<open>\<lfloor>x + 1/2\<rfloor>\<close> for the double of sign \<open>sg\<close> and magnitude \<open>x\<close>: the nearest
      integer, a tie going up\<close>
  "Math_round sg x =
     (if 0 \<le> snd x then sg * int (fst x) * 2 ^ nat (snd x)
      else (2 * sg * int (fst x) + 2 ^ nat (- snd x)) div (2 * 2 ^ nat (- snd x)))"

definition amountInCents :: "string \<Rightarrow> int option" where
  \<comment> \<open>\<open>None\<close> is \<^verbatim>\<open>NaN\<close> or an infinity: never equal to a price\<close>
  "amountInCents amount =
     (case parseFloat amount of
        None \<Rightarrow> None
      | Some (sg, x) \<Rightarrow> map_option (Math_round sg) (times_100 x))"

subsection \<open>The plan catalogue\<close>

record plan =
  plan_id :: string
  plan_name :: string
  plan_description :: string
  price :: int
  currency :: string
  articles_limit :: int
  duration_days :: int
  features :: "string list"

definition SUBSCRIPTION_PLANS :: "(string \<times> plan) list" where
  "SUBSCRIPTION_PLANS =
     [(''starter'',
       \<lparr>plan_id = ''starter'', plan_name = ''Starter'',
        plan_description = ''10 articles per month'', price = 9800, currency = ''usd'',
        articles_limit = 10, duration_days = 30,
        features = [''10 articles per month'', ''Access to text articles'', ''Email support'']\<rparr>),
      (''professional'',
       \<lparr>plan_id = ''professional'', plan_name = ''Professional'',
        plan_description = ''50 articles per month'', price = 49800, currency = ''usd'',
        articles_limit = 50, duration_days = 30,
        features = [''50 articles per month'',
          ''Access to all article types (text, image, PDF)'',
          ''Priority email support'', ''Downloadable PDFs'']\<rparr>),
      (''unlimited'',
       \<lparr>plan_id = ''unlimited'', plan_name = ''Unlimited Annual'',
        plan_description = ''Unlimited articles for 1 year'', price = 99800, currency = ''usd'',
        articles_limit = - 1, duration_days = 365,
        features = [''Unlimited articles'', ''All article types'',
          ''Priority phone & email support'', ''Early access to new articles'',
          ''Batch downloads'', ''API access'']\<rparr>)]"

text \<open>
  \<^verbatim>\<open>SUBSCRIPTION_PLANS[planId] || null\<close>. The catalogue is an object literal, so
  a key it does not own is looked up in \<^verbatim>\<open>Object.prototype\<close>: for the names
  below the lookup yields a function or object, which is truthy and has neither
  \<^verbatim>\<open>price\<close> nor \<^verbatim>\<open>duration_days\<close>. That result is \<open>Inherited\<close>.
\<close>

datatype plan_lookup = NoPlan | Inherited | Plan plan

definition Object_prototype_keys :: "string list" where
  "Object_prototype_keys =
     [''constructor'', ''toString'', ''toLocaleString'', ''valueOf'', ''hasOwnProperty'',
      ''isPrototypeOf'', ''propertyIsEnumerable'', ''__proto__'', ''__defineGetter__'',
      ''__defineSetter__'', ''__lookupGetter__'', ''__lookupSetter__'']"

definition getPlan :: "string \<Rightarrow> plan_lookup" where
  "getPlan planId =
     (case map_of SUBSCRIPTION_PLANS planId of
        Some p \<Rightarrow> Plan p
      | None \<Rightarrow> if planId \<in> set Object_prototype_keys then Inherited else NoPlan)"

text \<open>\<^verbatim>\<open>validatePlanPrice\<close>: for an inherited member \<^verbatim>\<open>plan.price\<close> is undefined,
  the difference is \<^verbatim>\<open>NaN\<close> and the comparison is false.\<close>

definition validatePlanPrice :: "string \<Rightarrow> int \<Rightarrow> bool" where
  "validatePlanPrice planId amountCents =
     (case getPlan planId of
        NoPlan \<Rightarrow> False
      | Inherited \<Rightarrow> False
      | Plan p \<Rightarrow> \<bar>price p - amountCents\<bar> \<le> 1)"

subsection \<open>The in-memory store\<close>

datatype sub_status = active | canceled

datatype pay_status = pending | completed | failed | refunded

record subscription =
  sub_id :: string
  sub_user_id :: string
  sub_plan_id :: string
  stripe_subscription_id :: "string option"
  sub_status :: sub_status
  expires_at :: int
  sub_created_at :: int
  sub_updated_at :: int

record payment =
  pay_id :: string
  pay_user_id :: string
  pay_plan_id :: string
  stripe_payment_intent_id :: string
  pay_amount :: "int option"
  pay_status :: pay_status
  pay_created_at :: int
  pay_updated_at :: int

record audit_entry =
  audit_id :: string
  audit_user_id :: "string option"
  action :: string
  details :: "(string \<times> jsval) list"
  ip :: string
  timestamp :: int

datatype js_error = TypeError | RangeError

text \<open>The lines the handlers write to the console, one constructor for each
  message of the source.\<close>

datatype log_line =
    SignatureFailed
  | IPNEvent "string option" "string option"
  | UnknownStatus "string option"
  | ProcessingError js_error
  | PaymentSucceeded "string option" "string option"
  | MissingIPNData "string option" "string option" "string option"
  | AlreadyProcessed "string option"
  | PlanNotFound string
  | FraudDetected "int option" string "int option"
  | SubscriptionCreated string string int
  | PaymentFailed "string option"
  | PaymentPending "string option"
  | PaymentRefunded "string option"
  | SubscriptionCanceled "string option"

text \<open>
  The module state. A JavaScript \<^verbatim>\<open>Map\<close> is an association list in insertion
  order: \<^verbatim>\<open>set\<close> is \<^const>\<open>AList.update\<close> (an existing key keeps its place, a
  new key goes last), \<^verbatim>\<open>get\<close> is \<^const>\<open>map_of\<close>, \<^verbatim>\<open>values()\<close> is
  \<open>map snd\<close>. A record found by \<^verbatim>\<open>get\<close> and then assigned to is changed in
  place: \<^const>\<open>AList.map_entry\<close>.
\<close>

record world =
  subscriptions :: "(string \<times> subscription) list"
  payments :: "(string \<times> payment) list"
  auditLog :: "audit_entry list"
  console :: "log_line list"

definition empty_world :: world where
  "empty_world = \<lparr>subscriptions = [], payments = [], auditLog = [], console = []\<rparr>"

definition console_log :: "log_line \<Rightarrow> world \<Rightarrow> world" where
  "console_log l w = w\<lparr>console := console w @ [l]\<rparr>"

definition subscriptions_create ::
  "string \<Rightarrow> int \<Rightarrow> string \<Rightarrow> string \<Rightarrow> string option \<Rightarrow> int \<Rightarrow> world \<Rightarrow> subscription \<times> world" where
  "subscriptions_create newid now userId planId stripeSubscriptionId expiresAt w =
     (let subscription =
            \<lparr>sub_id = newid, sub_user_id = userId, sub_plan_id = planId,
             stripe_subscription_id = stripeSubscriptionId, sub_status = active,
             expires_at = expiresAt, sub_created_at = now, sub_updated_at = now\<rparr>
      in (subscription, w\<lparr>subscriptions := AList.update newid subscription (subscriptions w)\<rparr>))"

definition subscriptions_findByUserId :: "world \<Rightarrow> string option \<Rightarrow> subscription list" where
  "subscriptions_findByUserId w userId =
     filter (\<lambda>sub. Some (sub_user_id sub) = userId) (map snd (subscriptions w))"

definition subscriptions_findActiveByUserId :: "int \<Rightarrow> world \<Rightarrow> string option \<Rightarrow> subscription list" where
  "subscriptions_findActiveByUserId now w userId =
     filter (\<lambda>sub. sub_status sub = active \<and> now < expires_at sub)
       (subscriptions_findByUserId w userId)"

definition subscriptions_updateStatus :: "int \<Rightarrow> string \<Rightarrow> sub_status \<Rightarrow> world \<Rightarrow> world" where
  "subscriptions_updateStatus now subscriptionId st w =
     w\<lparr>subscriptions :=
         AList.map_entry subscriptionId (\<lambda>sub. sub\<lparr>sub_status := st, sub_updated_at := now\<rparr>)
           (subscriptions w)\<rparr>"

definition payments_create ::
  "string \<Rightarrow> int \<Rightarrow> string \<Rightarrow> string \<Rightarrow> string \<Rightarrow> int option \<Rightarrow> world \<Rightarrow> payment \<times> world" where
  "payments_create newid now userId planId stripePaymentIntentId amount w =
     (let payment =
            \<lparr>pay_id = newid, pay_user_id = userId, pay_plan_id = planId,
             stripe_payment_intent_id = stripePaymentIntentId, pay_amount = amount,
             pay_status = pending, pay_created_at = now, pay_updated_at = now\<rparr>
      in (payment, w\<lparr>payments := AList.update newid payment (payments w)\<rparr>))"

definition payments_findByStripeId :: "world \<Rightarrow> string option \<Rightarrow> payment option" where
  "payments_findByStripeId w stripePaymentIntentId =
     find (\<lambda>payment. Some (stripe_payment_intent_id payment) = stripePaymentIntentId)
       (map snd (payments w))"

definition payments_updateStatus :: "int \<Rightarrow> string \<Rightarrow> pay_status \<Rightarrow> world \<Rightarrow> world" where
  "payments_updateStatus now paymentId st w =
     w\<lparr>payments :=
         AList.map_entry paymentId (\<lambda>payment. payment\<lparr>pay_status := st, pay_updated_at := now\<rparr>)
           (payments w)\<rparr>"

definition audit_log ::
  "string \<Rightarrow> int \<Rightarrow> string option \<Rightarrow> string \<Rightarrow> (string \<times> jsval) list \<Rightarrow> world \<Rightarrow> world" where
  "audit_log newid now userId act dets w =
     w\<lparr>auditLog := auditLog w @
         [\<lparr>audit_id = newid, audit_user_id = userId, action = act, details = dets,
           ip = (case map_of dets ''ip'' of
                   Some (Str a) \<Rightarrow> if a = [] then ''unknown'' else a
                 | _ \<Rightarrow> ''unknown''),
           timestamp = now\<rparr>]\<rparr>"

subsection \<open>Notifications\<close>

text \<open>
  The body of a notification as the route handler receives it (\<^verbatim>\<open>req.body\<close>,
  the object built by \<^verbatim>\<open>express.urlencoded\<close>): its own properties in
  property order, every value a string. A property that is absent reads as
  undefined.
\<close>

type_synonym ipn = "(string \<times> string) list"

definition field :: "ipn \<Rightarrow> string \<Rightarrow> string option" where
  "field ipnData k = map_of ipnData k"

definition str_of :: "string option \<Rightarrow> string" where
  \<comment> \<open>the string of a value already known to be truthy\<close>
  "str_of v = (case v of None \<Rightarrow> [] | Some s \<Rightarrow> s)"

text \<open>
  What a call reads from its environment: the clock, the identifiers drawn, and
  the calendar of the time zone of the server. \<open>plus_days e t d\<close> is the
  instant that \<^verbatim>\<open>setDate(getDate() + d)\<close> gives for a date at the instant
  \<open>t\<close>: the same local time of day, \<open>d\<close> calendar days later. Nothing is
  assumed about it.
\<close>

record env =
  clock :: int
  rnd :: "nat \<Rightarrow> string"
  plus_days :: "int \<Rightarrow> int \<Rightarrow> int"

text \<open>The branch of \<^verbatim>\<open>handlePaymentSucceeded\<close> taken when the amount in cents is
  not the price of the plan (lines 340 to 351).\<close>

definition fraud_detected ::
  "env \<Rightarrow> string option \<Rightarrow> string option \<Rightarrow> string \<Rightarrow> int option \<Rightarrow> int option \<Rightarrow> world \<Rightarrow> world" where
  "fraud_detected e userId paymentToken planId expected cents w =
     audit_log (rnd e 0) (clock e) userId ''fraud_detected''
       [(''paymentToken'', opt_str paymentToken),
        (''expectedAmount'', (case expected of None \<Rightarrow> Undefined | Some n \<Rightarrow> Num n)),
        (''actualAmount'', opt_num cents),
        (''planId'', Str planId)]
       (console_log (FraudDetected cents planId expected) w)"

text \<open>
  The end of \<^verbatim>\<open>handlePaymentSucceeded\<close>, after the checks (lines 353 to 380):
  the subscription is created, the payment attempt found for the token, if
  there is one, is marked completed, and the audit entry is written.
\<close>

definition create_subscription ::
  "env \<Rightarrow> string option \<Rightarrow> string option \<Rightarrow> string option \<Rightarrow> int option \<Rightarrow> plan
     \<Rightarrow> payment option \<Rightarrow> world \<Rightarrow> world" where
  "create_subscription e userId planId paymentToken cents plan payment w1 =
     (let expiresAt = plus_days e (clock e) (duration_days plan);
          (subscription, w2) =
            subscriptions_create (rnd e 0) (clock e) (str_of userId) (str_of planId)
              paymentToken expiresAt w1;
          w3 = (case payment of
                  None \<Rightarrow> w2
                | Some p \<Rightarrow> payments_updateStatus (clock e) (pay_id p) completed w2);
          w4 = audit_log (rnd e 1) (clock e) userId ''subscription_created''
                 [(''paymentToken'', opt_str paymentToken),
                  (''planId'', opt_str planId),
                  (''amount'', opt_num cents),
                  (''expiresAt'', Date expiresAt),
                  (''subscriptionId'', Str (sub_id subscription))] w3
      in console_log (SubscriptionCreated (str_of userId) (str_of planId) expiresAt) w4)"

text \<open>\<^verbatim>\<open>handlePaymentSucceeded\<close>.\<close>

definition handlePaymentSucceeded :: "env \<Rightarrow> ipn \<Rightarrow> world \<Rightarrow> world" where
  "handlePaymentSucceeded e ipnData w0 =
     (let userId = field ipnData ''custom_param1'';
          planId = field ipnData ''custom_param2'';
          paymentToken = field ipnData ''token'';
          amount = field ipnData ''amount'';
          w1 = console_log (PaymentSucceeded paymentToken userId) w0
      in if \<not> truthy userId \<or> \<not> truthy planId \<or> \<not> truthy amount
         then console_log (MissingIPNData userId planId amount) w1
         else
           (let payment = payments_findByStripeId w1 paymentToken
            in if (case payment of None \<Rightarrow> False | Some p \<Rightarrow> pay_status p = completed)
               then console_log (AlreadyProcessed paymentToken) w1
               else
                 (case getPlan (str_of planId) of
                    NoPlan \<Rightarrow>
                      audit_log (rnd e 0) (clock e) userId ''invalid_plan''
                        [(''planId'', opt_str planId), (''paymentToken'', opt_str paymentToken)]
                        (console_log (PlanNotFound (str_of planId)) w1)
                  | Inherited \<Rightarrow>
                      fraud_detected e userId paymentToken (str_of planId) None
                        (amountInCents (str_of amount)) w1
                  | Plan plan \<Rightarrow>
                      (let cents = amountInCents (str_of amount)
                       in if cents \<noteq> Some (price plan)
                          then fraud_detected e userId paymentToken (str_of planId)
                                 (Some (price plan)) cents w1
                          else create_subscription e userId planId paymentToken cents plan
                                 payment w1))))"

definition handlePaymentFailed :: "env \<Rightarrow> ipn \<Rightarrow> world \<Rightarrow> world" where
  "handlePaymentFailed e ipnData w0 =
     (let userId = field ipnData ''custom_param1'';
          paymentToken = field ipnData ''token'';
          error_message = field ipnData ''error_message'';
          w1 = console_log (PaymentFailed paymentToken) w0;
          payment = payments_findByStripeId w1 paymentToken;
          w2 = (case payment of
                  None \<Rightarrow> w1
                | Some p \<Rightarrow> payments_updateStatus (clock e) (pay_id p) failed w1)
      in audit_log (rnd e 0) (clock e) userId ''payment_failed''
           [(''paymentToken'', opt_str paymentToken), (''reason'', opt_str error_message)] w2)"

definition handlePaymentPending :: "env \<Rightarrow> ipn \<Rightarrow> world \<Rightarrow> world" where
  "handlePaymentPending e ipnData w0 =
     (let userId = field ipnData ''custom_param1'';
          paymentToken = field ipnData ''token'';
          w1 = console_log (PaymentPending paymentToken) w0
      in audit_log (rnd e 0) (clock e) userId ''payment_pending''
           [(''paymentToken'', opt_str paymentToken)] w1)"

definition handlePaymentRefunded :: "env \<Rightarrow> ipn \<Rightarrow> world \<Rightarrow> world" where
  "handlePaymentRefunded e ipnData w0 =
     (let userId = field ipnData ''custom_param1'';
          planId = field ipnData ''custom_param2'';
          paymentToken = field ipnData ''token'';
          w1 = console_log (PaymentRefunded paymentToken) w0;
          subs = subscriptions_findByUserId w1 userId;
          subscription = find (\<lambda>s. Some (sub_plan_id s) = planId) subs;
          w2 = (case subscription of
                  None \<Rightarrow> w1
                | Some s \<Rightarrow> subscriptions_updateStatus (clock e) (sub_id s) canceled w1);
          payment = payments_findByStripeId w2 paymentToken;
          w3 = (case payment of
                  None \<Rightarrow> w2
                | Some p \<Rightarrow> payments_updateStatus (clock e) (pay_id p) refunded w2);
          w4 = audit_log (rnd e 0) (clock e) userId ''payment_refunded''
                 [(''paymentToken'', opt_str paymentToken),
                  (''planId'', opt_str planId),
                  (''subscriptionId'',
                     (case subscription of None \<Rightarrow> Undefined | Some s \<Rightarrow> Str (sub_id s)))] w3
      in console_log (SubscriptionCanceled userId) w4)"

subsection \<open>Signature verification and the notification endpoint\<close>

text \<open>
  \<^verbatim>\<open>JSON.stringify\<close> of an object whose values are strings: the properties in
  order, keys and values quoted and escaped.
\<close>

definition hex_digit :: "nat \<Rightarrow> char" where
  "hex_digit n = ''0123456789abcdef'' ! (n mod 16)"

definition json_escape :: "char \<Rightarrow> string" where
  "json_escape c =
     (if c = CHR 0x22 then [CHR 0x5C, CHR 0x22]
      else if c = CHR 0x5C then [CHR 0x5C, CHR 0x5C]
      else if c = CHR 0x08 then [CHR 0x5C, CHR ''b'']
      else if c = CHR 0x09 then [CHR 0x5C, CHR ''t'']
      else if c = CHR 0x0A then [CHR 0x5C, CHR ''n'']
      else if c = CHR 0x0C then [CHR 0x5C, CHR ''f'']
      else if c = CHR 0x0D then [CHR 0x5C, CHR ''r'']
      else if (of_char c :: nat) < 32
        then [CHR 0x5C, CHR ''u'', CHR ''0'', CHR ''0'',
              hex_digit (of_char c div 16), hex_digit (of_char c mod 16)]
      else [c])"

definition json_string :: "string \<Rightarrow> string" where
  "json_string s = [CHR 0x22] @ concat (map json_escape s) @ [CHR 0x22]"

fun join_comma :: "string list \<Rightarrow> string" where
  "join_comma [] = []"
| "join_comma [x] = x"
| "join_comma (x # y # ys) = x @ '','' @ join_comma (y # ys)"

definition JSON_stringify :: "ipn \<Rightarrow> string" where
  "JSON_stringify ipnData =
     ''{'' @ join_comma (map (\<lambda>(k, v). json_string k @ '':'' @ json_string v) ipnData) @ ''}''"

text \<open>
  \<^verbatim>\<open>crypto.createHmac('sha256', secret).update(data).digest('hex')\<close>. The MAC
  itself is a parameter \<open>hmac\<close>, from key and message to 256 bits; the digest is
  its 64 lower-case hexadecimal digits. \<^verbatim>\<open>createHmac\<close> throws a
  \<^verbatim>\<open>TypeError\<close> when the key is undefined (the environment variable is not
  set).
\<close>

definition digest_hex :: "256 word \<Rightarrow> string" where
  "digest_hex d = map (\<lambda>i. hex_digit (unat (and (drop_bit (4 * (63 - i)) d) 15))) [0..<64]"

text \<open>
  \<^verbatim>\<open>crypto.timingSafeEqual(a, b)\<close>, a primitive of Node, as its documentation
  describes it: it throws a \<^verbatim>\<open>RangeError\<close> when the two buffers differ in
  length; otherwise it goes through all pairs of bytes, whatever they are, and
  does not stop at the first pair that differs. \<open>scan_bytes a b\<close> is that
  pass: whether a differing pair was met, and how many pairs were examined.
  The number of pairs examined stands for the time the comparison takes.
\<close>

definition scan_bytes :: "string \<Rightarrow> string \<Rightarrow> bool \<times> nat" where
  "scan_bytes a b =
     foldl (\<lambda>acc xy. (fst acc \<or> fst xy \<noteq> snd xy, Suc (snd acc))) (False, 0) (zip a b)"

definition timingSafeEqual :: "string \<Rightarrow> string \<Rightarrow> js_error + bool" where
  "timingSafeEqual a b =
     (if length a \<noteq> length b then Inl RangeError else Inr (\<not> fst (scan_bytes a b)))"

definition verifyPayoneerSignature ::
  "(string \<Rightarrow> string \<Rightarrow> 256 word) \<Rightarrow> string option \<Rightarrow> ipn \<Rightarrow> string option \<Rightarrow> js_error + bool" where
  "verifyPayoneerSignature hmac secret ipnData signature =
     (if \<not> truthy signature then Inr False
      else
        (let dataToHash = JSON_stringify ipnData
         in case secret of
              None \<Rightarrow> Inl TypeError
            | Some key \<Rightarrow>
                (let calculatedSignature = digest_hex (hmac key dataToHash)
                 in timingSafeEqual (str_of signature) calculatedSignature)))"

datatype resp_body =
    ErrorBody string "string option"
  | ReceivedBody "js_error option"
  | FileBody string nat

datatype response = Response (status_code: nat) (body_of: resp_body)

record request =
  req_body :: ipn
  x_payoneer_signature :: "string option"

text \<open>
  The route \<^verbatim>\<open>POST /webhooks/payoneer\<close>. The whole handler runs inside
  \<^verbatim>\<open>try\<close>: an exception is logged and answered with status 200. The only
  operations of the handler that can throw are those of the signature check; the
  store is in memory and its operations do not fail.
\<close>

definition webhook ::
  "(string \<Rightarrow> string \<Rightarrow> 256 word) \<Rightarrow> string option \<Rightarrow> env \<Rightarrow> request \<Rightarrow> world \<Rightarrow> response \<times> world" where
  "webhook hmac secret e req w =
     (let ipnData = req_body req;
          signature = x_payoneer_signature req
      in case verifyPayoneerSignature hmac secret ipnData signature of
           Inl err \<Rightarrow>
             (Response 200 (ReceivedBody (Some err)), console_log (ProcessingError err) w)
         | Inr ok \<Rightarrow>
             if \<not> ok
             then (Response 401 (ErrorBody ''Unauthorized'' None), console_log SignatureFailed w)
             else
               (let st = field ipnData ''status'';
                    w1 = console_log (IPNEvent (field ipnData ''action'') st) w;
                    w2 = (if st = Some ''success'' \<or> st = Some ''approved''
                            then handlePaymentSucceeded e ipnData w1
                          else if st = Some ''failed'' \<or> st = Some ''declined''
                            then handlePaymentFailed e ipnData w1
                          else if st = Some ''pending''
                            then handlePaymentPending e ipnData w1
                          else if st = Some ''refund''
                            then handlePaymentRefunded e ipnData w1
                          else console_log (UnknownStatus st) w1)
                in (Response 200 (ReceivedBody None), w2)))"

subsection \<open>The body parser\<close>









subsection \<open>The resource access gate\<close>

record session =
  session_userId :: "string option"
  session_userEmail :: "string option"

record areq =
  req_session :: "session option"
  req_userId :: "string option"
  req_userEmail :: "string option"
  req_subscription :: "subscription option"
  req_filename :: string
  req_ip :: string

text \<open>What a stage of the pipeline consults, in the order in which it does.\<close>

datatype access =
    ReadSubscriptions "string option"
  | ReadWhitelist string
  | ReadFilesystem string

text \<open>A middleware either answers the request, which ends the chain, or calls
  \<^verbatim>\<open>next()\<close> with the request it has annotated.\<close>

definition requireAuth :: "areq \<Rightarrow> response + areq" where
  "requireAuth req =
     (case req_session req of
        None \<Rightarrow>
          Inl (Response 401 (ErrorBody ''Unauthorized'' (Some ''Please log in to continue'')))
      | Some s \<Rightarrow>
          if \<not> truthy (session_userId s)
          then Inl (Response 401 (ErrorBody ''Unauthorized'' (Some ''Please log in to continue'')))
          else Inr (req\<lparr>req_userId := session_userId s, req_userEmail := session_userEmail s\<rparr>))"

definition requireSubscription :: "int \<Rightarrow> world \<Rightarrow> areq \<Rightarrow> access list \<times> (response + areq)" where
  "requireSubscription now w req =
     (if \<not> truthy (req_userId req)
      then ([], Inl (Response 401 (ErrorBody ''Unauthorized'' None)))
      else
        (case subscriptions_findActiveByUserId now w (req_userId req) of
           [] \<Rightarrow>
             ([ReadSubscriptions (req_userId req)],
              Inl (Response 403 (ErrorBody ''Forbidden'' (Some ''Active subscription required''))))
         | s # ss \<Rightarrow>
             ([ReadSubscriptions (req_userId req)], Inr (req\<lparr>req_subscription := Some s\<rparr>))))"

definition ALLOWED_FILES :: "(string \<times> string) list" where
  "ALLOWED_FILES =
     [(''health-wellness.pdf'', ''Health and Wellness Guide''),
      (''article-1.pdf'', ''Article 1: Advanced Topics'')]"

text \<open>
  The handler of \<^verbatim>\<open>GET /download/:filename\<close>. The directory of the files is the
  parameter \<open>PDF_DIR\<close>, a normalised absolute path; the file system is the
  parameter \<open>fs\<close>, from a path to the size of the file there. \<^verbatim>\<open>path.join\<close>
  is applied to names of the whitelist only, which have no separator and no
  dot segment, so it puts one separator between its arguments.
\<close>

definition download ::
  "string \<Rightarrow> (string \<Rightarrow> nat option) \<Rightarrow> env \<Rightarrow> areq \<Rightarrow> world \<Rightarrow> access list \<times> response \<times> world" where
  "download PDF_DIR fs e req w =
     (let filename = req_filename req
      in if map_of ALLOWED_FILES filename = None
         then ([ReadWhitelist filename],
               Response 404 (ErrorBody ''Not Found'' (Some ''File not found'')), w)
         else
           (let filepath = PDF_DIR @ ''/'' @ filename
            in if take (length PDF_DIR) filepath \<noteq> PDF_DIR
               then ([ReadWhitelist filename],
                     Response 403 (ErrorBody ''Forbidden'' (Some ''Access denied'')), w)
               else
                 (case fs filepath of
                    None \<Rightarrow>
                      ([ReadWhitelist filename, ReadFilesystem filepath],
                       Response 404 (ErrorBody ''Not Found'' (Some ''File not found'')), w)
                  | Some fileSize \<Rightarrow>
                      ([ReadWhitelist filename, ReadFilesystem filepath],
                       Response 200 (FileBody filename fileSize),
                       audit_log (rnd e 0) (clock e) (req_userId req) ''pdf_download''
                         [(''filename'', Str filename), (''fileSize'', Num (int fileSize)),
                          (''ip'', Str (req_ip req))] w))))"

text \<open>\<^verbatim>\<open>router.get('/download/:filename', requireAuth, requireSubscription, handler)\<close>:
  the three stages in the order of the route.\<close>

definition download_route ::
  "string \<Rightarrow> (string \<Rightarrow> nat option) \<Rightarrow> env \<Rightarrow> areq \<Rightarrow> world \<Rightarrow> access list \<times> response \<times> world" where
  "download_route PDF_DIR fs e req w =
     (case requireAuth req of
        Inl res \<Rightarrow> ([], res, w)
      | Inr req1 \<Rightarrow>
          (case requireSubscription (clock e) w req1 of
             (t, Inl res) \<Rightarrow> (t, res, w)
           | (t, Inr req2) \<Rightarrow>
               (let (t', res, w') = download PDF_DIR fs e req2 w in (t @ t', res, w'))))"

subsection \<open>Signature check on the bytes of a request\<close>


text \<open>A notification with the signature the verifier expects.\<close>

definition signed :: "(string \<Rightarrow> string \<Rightarrow> 256 word) \<Rightarrow> string \<Rightarrow> ipn \<Rightarrow> request" where
  "signed hmac key ipnData =
     \<lparr>req_body = ipnData,
      x_payoneer_signature = Some (digest_hex (hmac key (JSON_stringify ipnData)))\<rparr>"

subsection \<open>Well-formed and reachable stores\<close>

text \<open>
  Every record is stored under its own identifier (\<^verbatim>\<open>payments.set(id, payment)\<close>
  with \<^verbatim>\<open>payment.id = id\<close>), and the keys of a \<^verbatim>\<open>Map\<close> are distinct.
\<close>

definition keyed_by :: "('v \<Rightarrow> string) \<Rightarrow> (string \<times> 'v) list \<Rightarrow> bool" where
  "keyed_by ident al = (distinct (map fst al) \<and> list_all (\<lambda>(k, v). ident v = k) al)"

definition wf_world :: "world \<Rightarrow> bool" where
  "wf_world w = (keyed_by sub_id (subscriptions w) \<and> keyed_by pay_id (payments w))"

text \<open>
  The states of the store: it starts empty, and it changes when the checkout
  route records a payment attempt (\<^verbatim>\<open>db.payments.create\<close>) and writes an audit
  entry, when a notification is delivered, and when a download is served. The
  arguments of the checkout calls are left arbitrary.
\<close>

inductive reachable :: "world \<Rightarrow> bool" where
  start: "reachable empty_world"
| checkout: "reachable w \<Longrightarrow> reachable (snd (payments_create newid now userId planId token amount w))"
| audit: "reachable w \<Longrightarrow> reachable (audit_log newid now userId act dets w)"
| notification: "reachable w \<Longrightarrow> reachable (snd (webhook hmac secret e req w))"
| served: "reachable w \<Longrightarrow> reachable (snd (snd (download_route PDF_DIR fs e areq w)))"

subsection \<open>Example data\<close>

definition example_hmac :: "string \<Rightarrow> string \<Rightarrow> 256 word" where
  \<comment> \<open>a stand-in for HMAC-SHA256 in the examples\<close>
  "example_hmac key msg = of_nat (length key + 2 * length msg)"

definition utc_days :: "int \<Rightarrow> int \<Rightarrow> int" where
  \<comment> \<open>the calendar of a time zone without clock changes: a day is 86400000 ms\<close>
  "utc_days t d = t + d * 86400000"

definition env1 :: env where
  "env1 = \<lparr>clock = 1000, rnd = (\<lambda>i. if i = 0 then ''sub1'' else ''log1''),
            plus_days = utc_days\<rparr>"

definition env2 :: env where
  "env2 = \<lparr>clock = 2000, rnd = (\<lambda>i. if i = 0 then ''sub2'' else ''log2''),
            plus_days = utc_days\<rparr>"

definition success_tok1 :: ipn where
  "success_tok1 =
     [(''status'', ''success''), (''token'', ''tok_1''), (''custom_param1'', ''u1''),
      (''custom_param2'', ''starter''), (''amount'', ''98.00'')]"

definition success_tok2 :: ipn where
  "success_tok2 =
     [(''status'', ''success''), (''token'', ''tok_2''), (''custom_param1'', ''u1''),
      (''custom_param2'', ''professional''), (''amount'', ''498.00'')]"

definition overpaid_tok1 :: ipn where
  "overpaid_tok1 =
     [(''status'', ''success''), (''token'', ''tok_1''), (''custom_param1'', ''u1''),
      (''custom_param2'', ''starter''), (''amount'', ''98.01'')]"

definition no_amount_tok1 :: ipn where
  "no_amount_tok1 =
     [(''status'', ''success''), (''token'', ''tok_1''), (''custom_param1'', ''u1''),
      (''custom_param2'', ''starter'')]"

definition failed_tok1 :: ipn where
  "failed_tok1 = [(''status'', ''failed''), (''token'', ''tok_1''), (''custom_param1'', ''u1'')]"

definition refund_tok3 :: ipn where
  "refund_tok3 =
     [(''status'', ''refund''), (''token'', ''tok_3''), (''custom_param1'', ''u1''),
      (''custom_param2'', ''starter'')]"

text \<open>The store after two checkouts of user \<open>u1\<close>: two pending attempts.\<close>

definition pending_tok1 :: world where
  "pending_tok1 = snd (payments_create ''pay1'' 10 ''u1'' ''starter'' ''tok_1'' (Some 9800) empty_world)"

definition pending_tok1_tok2 :: world where
  "pending_tok1_tok2 =
     snd (payments_create ''pay2'' 20 ''u1'' ''professional'' ''tok_2'' (Some 49800) pending_tok1)"

text \<open>The store after two checkouts of user \<open>u1\<close> for the same plan.\<close>

definition pending_tok1_tok3 :: world where
  "pending_tok1_tok3 =
     snd (payments_create ''pay3'' 30 ''u1'' ''starter'' ''tok_3'' (Some 9800) pending_tok1)"

text \<open>The store after the delivery of a notification that carries the signature
  the verifier expects, and the answer to it.\<close>

definition deliver :: "env \<Rightarrow> ipn \<Rightarrow> world \<Rightarrow> world" where
  "deliver e d w = snd (webhook example_hmac (Some ''secret'') e (signed example_hmac ''secret'' d) w)"

definition answer :: "env \<Rightarrow> ipn \<Rightarrow> world \<Rightarrow> response" where
  "answer e d w = fst (webhook example_hmac (Some ''secret'') e (signed example_hmac ''secret'' d) w)"

section \<open>Properties\<close>

subsection \<open>Signatures\<close>

lemma scan_bytes_from:
  "foldl (\<lambda>acc xy. (fst acc \<or> fst xy \<noteq> snd xy, Suc (snd acc))) (df, n) ps =
     (df \<or> (\<exists>xy \<in> set ps. fst xy \<noteq> snd xy), n + length ps)"
  by (induction ps arbitrary: df n) auto


lemma scan_bytes_differ:
  assumes "length a = length b"
  shows "fst (scan_bytes a b) \<longleftrightarrow> a \<noteq> b"
  using assms by (simp add: scan_bytes_def scan_bytes_from list_eq_iff_zip_eq split_beta)

lemma timingSafeEqual_eq:
  "timingSafeEqual a b = (if length a \<noteq> length b then Inl RangeError else Inr (a = b))"
  by (simp add: timingSafeEqual_def scan_bytes_differ)

lemma length_digest_hex: "length (digest_hex d) = 64"
  by (simp add: digest_hex_def)

lemma digest_hex_nonempty: "digest_hex d \<noteq> []"
  using length_digest_hex [of d] by auto

lemma verify_signed:
  "verifyPayoneerSignature hmac (Some key) (req_body (signed hmac key d))
     (x_payoneer_signature (signed hmac key d)) = Inr True"
  by (simp add: verifyPayoneerSignature_def signed_def truthy_def str_of_def
      timingSafeEqual_eq digest_hex_nonempty)

subsection \<open>Notifications with missing fields\<close>

lemma console_log_fields:
  "subscriptions (console_log l w) = subscriptions w"
  "payments (console_log l w) = payments w"
  "auditLog (console_log l w) = auditLog w"
  by (simp_all add: console_log_def)

lemma handlePaymentSucceeded_missing:
  assumes "\<not> truthy (field d ''custom_param1'') \<or> \<not> truthy (field d ''custom_param2'')
           \<or> \<not> truthy (field d ''amount'')"
  shows "handlePaymentSucceeded e d w =
     console_log (MissingIPNData (field d ''custom_param1'') (field d ''custom_param2'') (field d ''amount''))
       (console_log (PaymentSucceeded (field d ''token'') (field d ''custom_param1'')) w)"
  using assms by (auto simp add: handlePaymentSucceeded_def Let_def)

text \<open>
  Claim C10. A correctly signed payment-success notification that lacks the user,
  the plan or the amount (the field is absent or empty) is acknowledged with
  status 200, and it changes neither the subscription store, nor the payment
  store, nor the audit log: no audit entry of any kind is written.
\<close>

theorem missing_fields_acknowledged_without_writes:
  assumes verified:
      "verifyPayoneerSignature hmac secret (req_body req) (x_payoneer_signature req) = Inr True"
    and success:
      "field (req_body req) ''status'' = Some ''success''
       \<or> field (req_body req) ''status'' = Some ''approved''"
    and missing:
      "\<not> truthy (field (req_body req) ''custom_param1'')
       \<or> \<not> truthy (field (req_body req) ''custom_param2'')
       \<or> \<not> truthy (field (req_body req) ''amount'')"
  shows "fst (webhook hmac secret e req w) = Response 200 (ReceivedBody None)
       \<and> subscriptions (snd (webhook hmac secret e req w)) = subscriptions w
       \<and> payments (snd (webhook hmac secret e req w)) = payments w
       \<and> auditLog (snd (webhook hmac secret e req w)) = auditLog w"
proof -
  have "snd (webhook hmac secret e req w) =
      handlePaymentSucceeded e (req_body req)
        (console_log (IPNEvent (field (req_body req) ''action'') (field (req_body req) ''status'')) w)"
    and "fst (webhook hmac secret e req w) = Response 200 (ReceivedBody None)"
    using verified success by (auto simp add: webhook_def Let_def)
  then show ?thesis
    using missing by (simp add: handlePaymentSucceeded_missing console_log_fields)
qed

theorem missing_fields_witness:
  "verifyPayoneerSignature example_hmac (Some ''secret'')
      (req_body (signed example_hmac ''secret'' no_amount_tok1))
      (x_payoneer_signature (signed example_hmac ''secret'' no_amount_tok1)) = Inr True
   \<and> field (req_body (signed example_hmac ''secret'' no_amount_tok1)) ''status'' = Some ''success''
   \<and> \<not> truthy (field (req_body (signed example_hmac ''secret'' no_amount_tok1)) ''amount'')
   \<and> fst (webhook example_hmac (Some ''secret'') env1
            (signed example_hmac ''secret'' no_amount_tok1) pending_tok1)
       = Response 200 (ReceivedBody None)
   \<and> subscriptions (snd (webhook example_hmac (Some ''secret'') env1
            (signed example_hmac ''secret'' no_amount_tok1) pending_tok1)) = []
   \<and> map (pay_status \<circ> snd) (payments (snd (webhook example_hmac (Some ''secret'') env1
            (signed example_hmac ''secret'' no_amount_tok1) pending_tok1))) = [pending]
   \<and> auditLog (snd (webhook example_hmac (Some ''secret'') env1
            (signed example_hmac ''secret'' no_amount_tok1) pending_tok1)) = []"
proof -
  have v: "verifyPayoneerSignature example_hmac (Some ''secret'')
      (req_body (signed example_hmac ''secret'' no_amount_tok1))
      (x_payoneer_signature (signed example_hmac ''secret'' no_amount_tok1)) = Inr True"
    by (rule verify_signed)
  have s: "field (req_body (signed example_hmac ''secret'' no_amount_tok1)) ''status'' = Some ''success''"
    by (simp add: signed_def no_amount_tok1_def field_def)
  have m: "\<not> truthy (field (req_body (signed example_hmac ''secret'' no_amount_tok1)) ''amount'')"
    by (simp add: signed_def no_amount_tok1_def field_def truthy_def)
  have w: "subscriptions pending_tok1 = []" "auditLog pending_tok1 = []"
    "map (pay_status \<circ> snd) (payments pending_tok1) = [pending]"
    by (simp_all add: pending_tok1_def payments_create_def empty_world_def Let_def)
  from missing_fields_acknowledged_without_writes [OF v disjI1 [OF s] disjI2 [OF disjI2 [OF m]],
      of env1 pending_tok1] v s m w
  show ?thesis by simp
qed

subsection \<open>The order of the stages of the download route\<close>

text \<open>
  Claim C9. The download route runs the session check, the subscription check and
  the whitelist check in this order. A request without an authenticated session
  is answered 401 and nothing is consulted: neither the subscription store nor
  the whitelist. A request with a session whose user has no active subscription
  is answered 403 after the subscription store alone was read; the whitelist is
  not consulted. Both hold for every requested file name, and the store is left
  as it was.
\<close>

theorem download_stages_in_order:
  "((req_session req = None
      \<or> (\<exists>s. req_session req = Some s \<and> \<not> truthy (session_userId s)))
     \<longrightarrow> download_route PDF_DIR fs e req w =
          ([], Response 401 (ErrorBody ''Unauthorized'' (Some ''Please log in to continue'')), w))
   \<and> (\<forall>s. req_session req = Some s \<and> truthy (session_userId s)
          \<and> subscriptions_findActiveByUserId (clock e) w (session_userId s) = []
     \<longrightarrow> download_route PDF_DIR fs e req w =
          ([ReadSubscriptions (session_userId s)],
           Response 403 (ErrorBody ''Forbidden'' (Some ''Active subscription required'')), w))"
  by (auto simp add: download_route_def requireAuth_def requireSubscription_def
      split: option.splits)

theorem download_stages_witness:
  "download_route ''/srv/pdfs'' (\<lambda>p. Some 2048) env1
      \<lparr>req_session = None, req_userId = None, req_userEmail = None, req_subscription = None,
       req_filename = ''article-1.pdf'', req_ip = ''10.0.0.1''\<rparr> pending_tok1 =
     ([], Response 401 (ErrorBody ''Unauthorized'' (Some ''Please log in to continue'')),
      pending_tok1)
   \<and> download_route ''/srv/pdfs'' (\<lambda>p. Some 2048) env1
      \<lparr>req_session = Some \<lparr>session_userId = Some ''u1'', session_userEmail = Some ''u1@example.org''\<rparr>,
       req_userId = None, req_userEmail = None, req_subscription = None,
       req_filename = ''article-1.pdf'', req_ip = ''10.0.0.1''\<rparr> pending_tok1 =
     ([ReadSubscriptions (Some ''u1'')],
      Response 403 (ErrorBody ''Forbidden'' (Some ''Active subscription required'')),
      pending_tok1)"
proof -
  have none: "subscriptions_findActiveByUserId (clock env1) pending_tok1 (Some ''u1'') = []"
    by (simp add: subscriptions_findActiveByUserId_def subscriptions_findByUserId_def
        pending_tok1_def payments_create_def empty_world_def Let_def)
  have t: "truthy (Some ''u1'')"
    by (simp add: truthy_def)
  show ?thesis
    using download_stages_in_order [of
        "\<lparr>req_session = None, req_userId = None, req_userEmail = None, req_subscription = None,
          req_filename = ''article-1.pdf'', req_ip = ''10.0.0.1''\<rparr>"
        "''/srv/pdfs''" "\<lambda>p. Some 2048" env1 pending_tok1]
      download_stages_in_order [of
        "\<lparr>req_session = Some \<lparr>session_userId = Some ''u1'', session_userEmail = Some ''u1@example.org''\<rparr>,
          req_userId = None, req_userEmail = None, req_subscription = None,
          req_filename = ''article-1.pdf'', req_ip = ''10.0.0.1''\<rparr>"
        "''/srv/pdfs''" "\<lambda>p. Some 2048" env1 pending_tok1]
      none t
    by simp
qed

text \<open>With an active subscription the same request reaches the whitelist.\<close>

lemma subscribed_request_reaches_whitelist:
  assumes "req_session req = Some s" and "truthy (session_userId s)"
    and "subscriptions_findActiveByUserId (clock e) w (session_userId s) \<noteq> []"
  shows "fst (download_route PDF_DIR fs e req w) =
     ReadSubscriptions (session_userId s) # fst (download PDF_DIR fs e
        (req\<lparr>req_userId := session_userId s, req_userEmail := session_userEmail s,
           req_subscription := Some (hd (subscriptions_findActiveByUserId (clock e) w (session_userId s)))\<rparr>) w)"
  using assms
  by (auto simp add: download_route_def requireAuth_def requireSubscription_def
      split: option.splits list.splits prod.splits)

subsection \<open>Signatures that do not verify\<close>


lemma unverified_leaves_store:
  assumes "verifyPayoneerSignature hmac secret (req_body req) (x_payoneer_signature req) \<noteq> Inr True"
  shows "subscriptions (snd (webhook hmac secret e req w)) = subscriptions w
       \<and> payments (snd (webhook hmac secret e req w)) = payments w
       \<and> auditLog (snd (webhook hmac secret e req w)) = auditLog w
       \<and> (\<exists>l. console (snd (webhook hmac secret e req w)) = console w @ [l]
              \<and> (l = SignatureFailed \<or> (\<exists>err. l = ProcessingError err)))"
  using assms
  by (cases "verifyPayoneerSignature hmac secret (req_body req) (x_payoneer_signature req)")
    (auto simp add: webhook_def console_log_def)

lemma refused_signature_is_401:
  assumes "verifyPayoneerSignature hmac secret (req_body req) (x_payoneer_signature req) = Inr False"
  shows "fst (webhook hmac secret e req w) = Response 401 (ErrorBody ''Unauthorized'' None)"
  using assms by (simp add: webhook_def)

text \<open>
  Claim C5, at the failing input. A notification whose signature header is
  \<^verbatim>\<open>abc\<close> does not verify, whatever the body, the key and the MAC. The header
  has three bytes and the digest has 64, so \<^verbatim>\<open>timingSafeEqual\<close> throws; the
  route catches the exception and answers 200, not 401. The store is untouched.
\<close>

theorem short_signature_is_acknowledged:
  "webhook hmac (Some key) e \<lparr>req_body = d, x_payoneer_signature = Some ''abc''\<rparr> w =
     (Response 200 (ReceivedBody (Some RangeError)), console_log (ProcessingError RangeError) w)"
  by (simp add: webhook_def verifyPayoneerSignature_def truthy_def str_of_def
      timingSafeEqual_eq length_digest_hex)

subsection \<open>Evaluating the handlers\<close>

lemmas double_defs = to_double_def floor_log2_def bit_length.simps round_half_even_def Let_def

lemma decimal_literal_examples:
  "decimal_literal ''98.00'' = Some (1, 9800, - 2)"
  "decimal_literal ''98.01'' = Some (1, 9801, - 2)"
  "decimal_literal ''498.00'' = Some (1, 49800, - 2)"
  by (simp_all add: decimal_literal_def skip_space_def strip_space_def white_space_def
      read_sign_def is_digit_def digits_val_def digit_val_def read_exponent_def)

lemma to_double_examples:
  "to_double 9800 100 = Some (6896136929411072, - 46)"
  "to_double 9801 100 = Some (6896840616852849, - 46)"
  "to_double 49800 100 = Some (8760908650119168, - 44)"
  by (simp_all add: double_defs)

lemma times_100_examples:
  "times_100 (6896136929411072, - 46) = Some (5387606976102400, - 39)"
  "times_100 (6896840616852849, - 46) = Some (5388156731916288, - 39)"
  "times_100 (8760908650119168, - 44) = Some (6844459882905600, - 37)"
  by (simp_all add: times_100_def double_defs)

lemma amountInCents_examples:
  "amountInCents ''98.00'' = Some 9800"
  "amountInCents ''98.01'' = Some 9801"
  "amountInCents ''498.00'' = Some 49800"
  by (simp_all add: amountInCents_def parseFloat_def decimal_literal_examples
      to_double_examples times_100_examples Math_round_def)

lemma getPlan_examples:
  "getPlan ''starter'' = Plan (
       \<lparr>plan_id = ''starter'', plan_name = ''Starter'',
        plan_description = ''10 articles per month'', price = 9800, currency = ''usd'',
        articles_limit = 10, duration_days = 30,
        features = [''10 articles per month'', ''Access to text articles'', ''Email support'']\<rparr>)"
  "getPlan ''professional'' = Plan (
       \<lparr>plan_id = ''professional'', plan_name = ''Professional'',
        plan_description = ''50 articles per month'', price = 49800, currency = ''usd'',
        articles_limit = 50, duration_days = 30,
        features = [''50 articles per month'',
          ''Access to all article types (text, image, PDF)'',
          ''Priority email support'', ''Downloadable PDFs'']\<rparr>)"
  by (simp_all add: getPlan_def SUBSCRIPTION_PLANS_def)

lemma webhook_signed:
  "webhook hmac (Some key) e (signed hmac key d) w =
     (Response 200 (ReceivedBody None),
      (let st = field d ''status'';
           w1 = console_log (IPNEvent (field d ''action'') st) w
       in if st = Some ''success'' \<or> st = Some ''approved'' then handlePaymentSucceeded e d w1
          else if st = Some ''failed'' \<or> st = Some ''declined'' then handlePaymentFailed e d w1
          else if st = Some ''pending'' then handlePaymentPending e d w1
          else if st = Some ''refund'' then handlePaymentRefunded e d w1
          else console_log (UnknownStatus st) w1))"
  using verify_signed [of hmac key d]
  by (simp add: webhook_def signed_def Let_def)

lemmas eval_defs =
  handlePaymentSucceeded_def handlePaymentFailed_def handlePaymentRefunded_def
  handlePaymentPending_def fraud_detected_def create_subscription_def
  field_def truthy_def str_of_def opt_str_def opt_num_def Let_def
  payments_findByStripeId_def payments_updateStatus_def payments_create_def
  subscriptions_create_def subscriptions_updateStatus_def subscriptions_findByUserId_def
  subscriptions_findActiveByUserId_def audit_log_def console_log_def
  empty_world_def utc_days_def
  env1_def env2_def success_tok1_def success_tok2_def overpaid_tok1_def no_amount_tok1_def
  failed_tok1_def refund_tok3_def pending_tok1_def pending_tok1_tok2_def pending_tok1_tok3_def
  getPlan_examples amountInCents_examples

text \<open>
  Claim C1, at the failing input. The store is empty, so there is no payment
  attempt for the token \<^verbatim>\<open>tok_1\<close>. The same verified payment-success
  notification is delivered twice. The handler looks for the attempt to see
  whether the notification was processed before; there is none, so the second
  delivery is processed like the first: the store holds two subscriptions for
  the token and no completed attempt, and the second delivery has written a
  second subscription and a second audit entry.
\<close>

theorem second_delivery_grants_again:
  "(let (r1, w1) = webhook example_hmac (Some ''secret'') env1
                     (signed example_hmac ''secret'' success_tok1) empty_world;
        (r2, w2) = webhook example_hmac (Some ''secret'') env2
                     (signed example_hmac ''secret'' success_tok1) w1
    in r1 = Response 200 (ReceivedBody None) \<and> r2 = Response 200 (ReceivedBody None)
       \<and> payments w1 = [] \<and> payments w2 = []
       \<and> map (\<lambda>(k, s). (k, stripe_subscription_id s, sub_status s)) (subscriptions w1) =
            [(''sub1'', Some ''tok_1'', active)]
       \<and> map (\<lambda>(k, s). (k, stripe_subscription_id s, sub_status s)) (subscriptions w2) =
            [(''sub1'', Some ''tok_1'', active), (''sub2'', Some ''tok_1'', active)]
       \<and> map action (auditLog w1) = [''subscription_created'']
       \<and> map action (auditLog w2) = [''subscription_created'', ''subscription_created''])"
  by (simp add: webhook_signed eval_defs)

subsection \<open>The amount check\<close>

text \<open>\<^verbatim>\<open>validatePlanPrice\<close> accepts exactly the amounts within one cent of the
  price of an existing plan.\<close>

lemma validatePlanPrice_tolerance:
  assumes "getPlan planId = Plan p"
  shows "validatePlanPrice planId amountCents \<longleftrightarrow> \<bar>price p - amountCents\<bar> \<le> 1"
  using assms by (simp add: validatePlanPrice_def)

lemma validatePlanPrice_fails_closed:
  assumes "map_of SUBSCRIPTION_PLANS planId = None"
  shows "\<not> validatePlanPrice planId amountCents"
  using assms by (simp add: validatePlanPrice_def getPlan_def)

text \<open>
  Claim C2, at the failing input. A verified payment-success notification for the
  plan \<^verbatim>\<open>starter\<close> (9800 cents) claims the amount \<^verbatim>\<open>98.01\<close>, one cent
  more than the price. \<^verbatim>\<open>validatePlanPrice\<close> accepts 9801 cents for this plan,
  but the notification handler does not call it: it compares the amount with the
  price for equality, records \<^verbatim>\<open>fraud_detected\<close> and grants nothing.
\<close>

theorem one_cent_off_is_refused:
  "validatePlanPrice ''starter'' 9801
   \<and> (let (r, w) = webhook example_hmac (Some ''secret'') env1
                     (signed example_hmac ''secret'' overpaid_tok1) pending_tok1
      in r = Response 200 (ReceivedBody None)
         \<and> subscriptions w = []
         \<and> map (\<lambda>(k, p). (stripe_payment_intent_id p, pay_status p)) (payments w) =
              [(''tok_1'', pending)]
         \<and> map (\<lambda>a. (action a, details a)) (auditLog w) =
              [(''fraud_detected'',
                [(''paymentToken'', Str ''tok_1''), (''expectedAmount'', Num 9800),
                 (''actualAmount'', Num 9801), (''planId'', Str ''starter'')])])"
  by (simp add: webhook_signed eval_defs validatePlanPrice_def)

subsection \<open>The store as a map\<close>

lemma map_entry_keys [simp]: "map fst (AList.map_entry k f al) = map fst al"
  by (induction al) auto

lemma map_entry_length [simp]: "length (AList.map_entry k f al) = length al"
  by (induction al) auto

lemma update_fresh: "k \<notin> fst ` set al \<Longrightarrow> AList.update k v al = al @ [(k, v)]"
  by (induction al) auto

lemma update_length:
  "length (AList.update k v al) = (if k \<in> fst ` set al then length al else Suc (length al))"
  by (induction al) auto

lemma keyed_by_update:
  assumes "keyed_by ident al" and "ident v = k"
  shows "keyed_by ident (AList.update k v al)"
proof -
  have "list_all (\<lambda>(k, v). ident v = k) (AList.update k v al)"
    using assms by (induction al) (auto simp add: keyed_by_def)
  with assms show ?thesis
    by (simp add: keyed_by_def distinct_update)
qed

lemma keyed_by_map_entry:
  assumes "keyed_by ident al" and "\<And>v. ident (f v) = ident v"
  shows "keyed_by ident (AList.map_entry k f al)"
proof -
  have "list_all (\<lambda>(k, v). ident v = k) (AList.map_entry k f al)"
    using assms by (induction al) (auto simp add: keyed_by_def)
  with assms show ?thesis
    by (simp add: keyed_by_def)
qed

text \<open>A record found by a scan of the values is the record stored under its own
  identifier.\<close>

lemma keyed_by_member:
  assumes "keyed_by ident al" and "v \<in> snd ` set al"
  shows "map_of al (ident v) = Some v"
proof -
  from assms(2) obtain k where kv: "(k, v) \<in> set al" by force
  with assms(1) have "ident v = k"
    by (auto simp add: keyed_by_def list_all_iff)
  with kv assms(1) show ?thesis
    by (simp add: keyed_by_def)
qed

lemma keyed_by_find:
  assumes "keyed_by ident al" and "find P (map snd al) = Some v"
  shows "map_of al (ident v) = Some v"
proof -
  from assms(2) have "v \<in> set (map snd al)"
    by (auto simp add: find_Some_iff)
  then show ?thesis
    using assms(1) by (intro keyed_by_member) auto
qed

subsection \<open>Reachable stores are well formed\<close>

lemma wf_console_log [simp]: "wf_world (console_log l w) = wf_world w"
  by (simp add: wf_world_def console_log_def)

lemma wf_audit_log [simp]: "wf_world (audit_log i t u a d w) = wf_world w"
  by (simp add: wf_world_def audit_log_def)

lemma wf_payments_create: "wf_world w \<Longrightarrow> wf_world (snd (payments_create i t u pl tok amt w))"
  by (simp add: wf_world_def payments_create_def Let_def keyed_by_update)

lemma wf_subscriptions_create:
  "wf_world w \<Longrightarrow> wf_world (snd (subscriptions_create i t u pl tok ex w))"
  by (simp add: wf_world_def subscriptions_create_def Let_def keyed_by_update)

lemma wf_payments_updateStatus: "wf_world w \<Longrightarrow> wf_world (payments_updateStatus t i st w)"
  by (simp add: wf_world_def payments_updateStatus_def keyed_by_map_entry)

lemma wf_subscriptions_updateStatus:
  "wf_world w \<Longrightarrow> wf_world (subscriptions_updateStatus t i st w)"
  by (simp add: wf_world_def subscriptions_updateStatus_def keyed_by_map_entry)

lemma wf_create_subscription:
  "wf_world w \<Longrightarrow> wf_world (create_subscription e u pl tok c p pm w)"
  by (cases pm)
    (simp_all add: create_subscription_def Let_def split_beta wf_subscriptions_create
      wf_payments_updateStatus)

lemma wf_handlePaymentSucceeded: "wf_world w \<Longrightarrow> wf_world (handlePaymentSucceeded e d w)"
  by (simp add: handlePaymentSucceeded_def Let_def fraud_detected_def wf_create_subscription
      split: plan_lookup.splits)

lemma wf_handlePaymentFailed: "wf_world w \<Longrightarrow> wf_world (handlePaymentFailed e d w)"
  by (simp add: handlePaymentFailed_def Let_def wf_payments_updateStatus split: option.splits)

lemma wf_handlePaymentPending: "wf_world w \<Longrightarrow> wf_world (handlePaymentPending e d w)"
  by (simp add: handlePaymentPending_def Let_def)

lemma wf_handlePaymentRefunded: "wf_world w \<Longrightarrow> wf_world (handlePaymentRefunded e d w)"
  by (simp add: handlePaymentRefunded_def Let_def wf_payments_updateStatus
      wf_subscriptions_updateStatus split: option.splits)

lemma wf_webhook: "wf_world w \<Longrightarrow> wf_world (snd (webhook hmac secret e req w))"
  by (simp add: webhook_def Let_def wf_handlePaymentSucceeded wf_handlePaymentFailed
      wf_handlePaymentPending wf_handlePaymentRefunded split: sum.splits)

lemma wf_download_route: "wf_world w \<Longrightarrow> wf_world (snd (snd (download_route d fs e r w)))"
  by (auto simp add: download_route_def download_def Let_def split: sum.splits prod.splits
      option.splits)

lemma reachable_wf: "reachable w \<Longrightarrow> wf_world w"
proof (induction rule: reachable.induct)
  case start
  show ?case by (simp add: wf_world_def keyed_by_def empty_world_def)
qed (simp_all add: wf_payments_create wf_webhook wf_download_route)

subsection \<open>What a notification does to the subscription store\<close>

lemma subscriptions_console_log [simp]: "subscriptions (console_log l w) = subscriptions w"
  by (simp add: console_log_def)

lemma payments_console_log [simp]: "payments (console_log l w) = payments w"
  by (simp add: console_log_def)

lemma auditLog_console_log [simp]: "auditLog (console_log l w) = auditLog w"
  by (simp add: console_log_def)

lemma subscriptions_audit_log [simp]: "subscriptions (audit_log i t u a d w) = subscriptions w"
  by (simp add: audit_log_def)

lemma payments_audit_log [simp]: "payments (audit_log i t u a d w) = payments w"
  by (simp add: audit_log_def)

lemma subscriptions_payments_updateStatus [simp]:
  "subscriptions (payments_updateStatus t i st w) = subscriptions w"
  by (simp add: payments_updateStatus_def)

lemma payments_subscriptions_updateStatus [simp]:
  "payments (subscriptions_updateStatus t i st w) = payments w"
  by (simp add: subscriptions_updateStatus_def)

lemma findByStripeId_console_log [simp]:
  "payments_findByStripeId (console_log l w) t = payments_findByStripeId w t"
  by (simp add: payments_findByStripeId_def)

lemma findByStripeId_subscriptions_update [simp]:
  "payments_findByStripeId (w\<lparr>subscriptions := x\<rparr>) t = payments_findByStripeId w t"
  by (simp add: payments_findByStripeId_def)

text \<open>Only the end of the payment-success handler adds to the subscription
  store; every other path leaves its length as it is.\<close>

lemma failed_keeps_subscriptions [simp]:
  "subscriptions (handlePaymentFailed e d w) = subscriptions w"
  by (simp add: handlePaymentFailed_def Let_def split: option.splits)

lemma pending_keeps_store [simp]:
  "subscriptions (handlePaymentPending e d w) = subscriptions w"
  "payments (handlePaymentPending e d w) = payments w"
  by (simp_all add: handlePaymentPending_def Let_def)

lemma refunded_keeps_keys [simp]:
  "map fst (subscriptions (handlePaymentRefunded e d w)) = map fst (subscriptions w)"
  by (simp add: handlePaymentRefunded_def Let_def subscriptions_updateStatus_def
      split: option.splits)

lemma refunded_keeps_length [simp]:
  "length (subscriptions (handlePaymentRefunded e d w)) = length (subscriptions w)"
  using refunded_keeps_keys [of e d w] by (metis length_map)

text \<open>The checks that stand before the creation of a subscription.\<close>

lemma succeeded_cases:
  assumes "subscriptions (handlePaymentSucceeded e d w) \<noteq> subscriptions w"
  shows "\<exists>p. truthy (field d ''custom_param1'') \<and> truthy (field d ''custom_param2'')
           \<and> truthy (field d ''amount'')
           \<and> (\<forall>pm. payments_findByStripeId w (field d ''token'') = Some pm
                  \<longrightarrow> pay_status pm \<noteq> completed)
           \<and> getPlan (str_of (field d ''custom_param2'')) = Plan p
           \<and> amountInCents (str_of (field d ''amount'')) = Some (price p)
           \<and> handlePaymentSucceeded e d w =
               create_subscription e (field d ''custom_param1'') (field d ''custom_param2'')
                 (field d ''token'') (Some (price p)) p
                 (payments_findByStripeId w (field d ''token''))
                 (console_log (PaymentSucceeded (field d ''token'') (field d ''custom_param1'')) w)"
proof -
  let ?u = "field d ''custom_param1''" and ?pl = "field d ''custom_param2''"
  let ?amt = "field d ''amount''" and ?tok = "field d ''token''"
  let ?w1 = "console_log (PaymentSucceeded ?tok ?u) w"
  have find: "payments_findByStripeId ?w1 ?tok = payments_findByStripeId w ?tok"
    by simp
  have t: "truthy ?u \<and> truthy ?pl \<and> truthy ?amt"
  proof (rule ccontr)
    assume "\<not> ?thesis"
    then have "subscriptions (handlePaymentSucceeded e d w) = subscriptions w"
      by (auto simp add: handlePaymentSucceeded_def Let_def)
    with assms show False by simp
  qed
  have nc: "\<not> (case payments_findByStripeId w ?tok of None \<Rightarrow> False
               | Some pm \<Rightarrow> pay_status pm = completed)"
  proof
    assume "case payments_findByStripeId w ?tok of None \<Rightarrow> False
              | Some pm \<Rightarrow> pay_status pm = completed"
    with t have "subscriptions (handlePaymentSucceeded e d w) = subscriptions w"
      by (simp add: handlePaymentSucceeded_def Let_def find)
    with assms show False by simp
  qed
  from t nc have step: "handlePaymentSucceeded e d w =
      (case getPlan (str_of ?pl) of
         NoPlan \<Rightarrow>
           audit_log (rnd e 0) (clock e) ?u ''invalid_plan''
             [(''planId'', opt_str ?pl), (''paymentToken'', opt_str ?tok)]
             (console_log (PlanNotFound (str_of ?pl)) ?w1)
       | Inherited \<Rightarrow>
           fraud_detected e ?u ?tok (str_of ?pl) None (amountInCents (str_of ?amt)) ?w1
       | Plan plan \<Rightarrow>
           if amountInCents (str_of ?amt) \<noteq> Some (price plan)
           then fraud_detected e ?u ?tok (str_of ?pl) (Some (price plan))
                  (amountInCents (str_of ?amt)) ?w1
           else create_subscription e ?u ?pl ?tok (amountInCents (str_of ?amt)) plan
                  (payments_findByStripeId w ?tok) ?w1)"
    by (simp add: handlePaymentSucceeded_def Let_def find split: plan_lookup.splits)
  obtain p where p: "getPlan (str_of ?pl) = Plan p"
  proof (cases "getPlan (str_of ?pl)")
    case NoPlan
    with step assms show ?thesis by simp
  next
    case Inherited
    with step assms show ?thesis by (simp add: fraud_detected_def)
  next
    case (Plan p)
    with that show ?thesis by simp
  qed
  have c: "amountInCents (str_of ?amt) = Some (price p)"
  proof (rule ccontr)
    assume "\<not> ?thesis"
    with step p have "subscriptions (handlePaymentSucceeded e d w) = subscriptions w"
      by (simp add: fraud_detected_def)
    with assms show False by simp
  qed
  from step p c have "handlePaymentSucceeded e d w =
      create_subscription e ?u ?pl ?tok (Some (price p)) p (payments_findByStripeId w ?tok) ?w1"
    by simp
  moreover from nc have "\<forall>pm. payments_findByStripeId w ?tok = Some pm
      \<longrightarrow> pay_status pm \<noteq> completed"
    by (auto split: option.splits)
  ultimately show ?thesis
    using t p c by blast
qed

lemma create_subscription_store:
  "subscriptions (create_subscription e u pl tok c p pm w) =
     AList.update (rnd e 0)
       \<lparr>sub_id = rnd e 0, sub_user_id = str_of u, sub_plan_id = str_of pl,
        stripe_subscription_id = tok, sub_status = active,
        expires_at = plus_days e (clock e) (duration_days p),
        sub_created_at = clock e, sub_updated_at = clock e\<rparr> (subscriptions w)"
  "payments (create_subscription e u pl tok c p pm w) =
     (case pm of
        None \<Rightarrow> payments w
      | Some x \<Rightarrow>
          AList.map_entry (pay_id x)
            (\<lambda>payment. payment\<lparr>pay_status := completed, pay_updated_at := clock e\<rparr>) (payments w))"
  by (simp_all add: create_subscription_def Let_def subscriptions_create_def
      payments_updateStatus_def split: option.splits)

lemma webhook_changes_subscriptions:
  assumes "length (subscriptions (snd (webhook hmac secret e req w))) \<noteq> length (subscriptions w)"
  shows "verifyPayoneerSignature hmac secret (req_body req) (x_payoneer_signature req) = Inr True
       \<and> (field (req_body req) ''status'' = Some ''success''
            \<or> field (req_body req) ''status'' = Some ''approved'')
       \<and> snd (webhook hmac secret e req w) =
           handlePaymentSucceeded e (req_body req)
             (console_log (IPNEvent (field (req_body req) ''action'')
                (field (req_body req) ''status'')) w)"
proof (cases "verifyPayoneerSignature hmac secret (req_body req) (x_payoneer_signature req)")
  case (Inl err)
  with assms show ?thesis by (simp add: webhook_def)
next
  case (Inr ok)
  show ?thesis
  proof (cases ok)
    case False
    with Inr assms show ?thesis by (simp add: webhook_def)
  next
    case True
    let ?st = "field (req_body req) ''status''"
    have "?st = Some ''success'' \<or> ?st = Some ''approved''"
    proof (rule ccontr)
      assume "\<not> ?thesis"
      with Inr True have "length (subscriptions (snd (webhook hmac secret e req w))) =
          length (subscriptions w)"
        by (simp add: webhook_def Let_def)
      with assms show False by simp
    qed
    with Inr True show ?thesis
      by (auto simp add: webhook_def Let_def)
  qed
qed

subsection \<open>A subscription without a payment attempt\<close>

lemma reachable_examples:
  "reachable empty_world" "reachable pending_tok1" "reachable pending_tok1_tok2"
  "reachable pending_tok1_tok3"
  unfolding pending_tok1_def pending_tok1_tok2_def pending_tok1_tok3_def
  by (auto intro: reachable.intros)

lemma reachable_deliver: "reachable w \<Longrightarrow> reachable (deliver e d w)"
  unfolding deliver_def by (rule reachable.notification)

lemma deliver_eval:
  "deliver e d w =
      (let st = field d ''status'';
           w1 = console_log (IPNEvent (field d ''action'') st) w
       in if st = Some ''success'' \<or> st = Some ''approved'' then handlePaymentSucceeded e d w1
          else if st = Some ''failed'' \<or> st = Some ''declined'' then handlePaymentFailed e d w1
          else if st = Some ''pending'' then handlePaymentPending e d w1
          else if st = Some ''refund'' then handlePaymentRefunded e d w1
          else console_log (UnknownStatus st) w1)"
  "answer e d w = Response 200 (ReceivedBody None)"
  by (simp_all add: deliver_def answer_def webhook_signed)

text \<open>
  Claim C3 as stated fails. On the empty store the verified payment-success
  notification for \<^verbatim>\<open>tok_1\<close> adds a subscription, and there is no payment
  attempt for the token, before or after: none became completed.
\<close>

theorem subscription_without_attempt:
  "length (subscriptions empty_world) = 0
   \<and> length (subscriptions (deliver env1 success_tok1 empty_world)) = 1
   \<and> payments_findByStripeId empty_world (Some ''tok_1'') = None
   \<and> payments_findByStripeId (deliver env1 success_tok1 empty_world) (Some ''tok_1'') = None
   \<and> payments (deliver env1 success_tok1 empty_world) = []"
  by (simp add: deliver_eval eval_defs)

subsection \<open>Several active subscriptions of one user\<close>

lemma truthy_str_of: "truthy v \<Longrightarrow> Some (str_of v) = v"
  by (cases v) (simp_all add: truthy_def str_of_def)

lemma findActive_append:
  assumes "subscriptions w' = subscriptions w @ [(k, s)]"
  shows "subscriptions_findActiveByUserId t w' uid =
     subscriptions_findActiveByUserId t w uid
       @ (if uid = Some (sub_user_id s) \<and> sub_status s = active \<and> t < expires_at s
          then [s] else [])"
  using assms
  by (auto simp add: subscriptions_findActiveByUserId_def subscriptions_findByUserId_def)

text \<open>
  Claim C4 as stated fails. User \<open>u1\<close> has two pending payment attempts, for
  \<^verbatim>\<open>tok_1\<close> and \<^verbatim>\<open>tok_2\<close>. After the verified payment-success
  notifications for both, \<^verbatim>\<open>findActiveByUserId\<close> returns two records: the
  first subscription was not marked canceled when the second was created.
\<close>

theorem two_active_subscriptions:
  "map (\<lambda>s. (sub_id s, sub_plan_id s, sub_status s))
     (subscriptions_findActiveByUserId 3000
        (deliver env2 success_tok2 (deliver env1 success_tok1 pending_tok1_tok2)) (Some ''u1'')) =
     [(''sub1'', ''starter'', active), (''sub2'', ''professional'', active)]"
  by (simp add: deliver_eval eval_defs)

text \<open>
  Claim C4, amended. A user may have several tracked active subscriptions.
  Whenever the delivery of a notification adds a record to the subscription
  store, every record already there is left as it was (none is marked canceled
  or superseded), and the new record, active and of the user the notification
  names, is put last; so \<^verbatim>\<open>findActiveByUserId\<close> returns for every user and
  every time what it returned before, followed by the new record where it is
  that user's and not yet expired.
\<close>

theorem new_subscription_keeps_the_old:
  assumes "length (subscriptions w) < length (subscriptions (snd (webhook hmac secret e req w)))"
  shows "\<exists>s. subscriptions (snd (webhook hmac secret e req w)) = subscriptions w @ [(rnd e 0, s)]
           \<and> sub_status s = active
           \<and> Some (sub_user_id s) = field (req_body req) ''custom_param1''
           \<and> (\<forall>t uid. subscriptions_findActiveByUserId t (snd (webhook hmac secret e req w)) uid =
                 subscriptions_findActiveByUserId t w uid
                   @ (if uid = Some (sub_user_id s) \<and> t < expires_at s then [s] else []))"
proof -
  let ?d = "req_body req"
  let ?w1 = "console_log (IPNEvent (field ?d ''action'') (field ?d ''status'')) w"
  let ?w' = "snd (webhook hmac secret e req w)"
  from assms have ne: "length (subscriptions ?w') \<noteq> length (subscriptions w)"
    by simp
  note wh = webhook_changes_subscriptions [OF ne]
  from wh assms have "subscriptions (handlePaymentSucceeded e ?d ?w1) \<noteq> subscriptions ?w1"
    by auto
  from succeeded_cases [OF this] obtain p where
    t: "truthy (field ?d ''custom_param1'')"
    and eq: "handlePaymentSucceeded e ?d ?w1 =
       create_subscription e (field ?d ''custom_param1'') (field ?d ''custom_param2'')
         (field ?d ''token'') (Some (price p)) p (payments_findByStripeId w (field ?d ''token''))
         (console_log (PaymentSucceeded (field ?d ''token'') (field ?d ''custom_param1'')) ?w1)"
    by auto
  define s where "s =
     \<lparr>sub_id = rnd e 0, sub_user_id = str_of (field ?d ''custom_param1''),
      sub_plan_id = str_of (field ?d ''custom_param2''),
      stripe_subscription_id = field ?d ''token'', sub_status = active,
      expires_at = plus_days e (clock e) (duration_days p),
      sub_created_at = clock e, sub_updated_at = clock e\<rparr>"
  from wh eq have upd: "subscriptions ?w' = AList.update (rnd e 0) s (subscriptions w)"
    by (simp add: create_subscription_store s_def)
  with assms have "rnd e 0 \<notin> fst ` set (subscriptions w)"
    by (auto simp add: update_length split: if_splits)
  with upd have app: "subscriptions ?w' = subscriptions w @ [(rnd e 0, s)]"
    by (simp add: update_fresh)
  have act: "sub_status s = active" and usr: "Some (sub_user_id s) = field ?d ''custom_param1''"
    using t by (simp_all add: s_def truthy_str_of)
  from findActive_append [OF app] act
  have "\<forall>t uid. subscriptions_findActiveByUserId t ?w' uid =
      subscriptions_findActiveByUserId t w uid
        @ (if uid = Some (sub_user_id s) \<and> t < expires_at s then [s] else [])"
    by simp
  with app act usr show ?thesis by blast
qed

theorem new_subscription_witness:
  "length (subscriptions (deliver env1 success_tok1 pending_tok1_tok2))
     < length (subscriptions (snd (webhook example_hmac (Some ''secret'') env2
          (signed example_hmac ''secret'' success_tok2)
          (deliver env1 success_tok1 pending_tok1_tok2))))
   \<and> (\<exists>s. subscriptions (snd (webhook example_hmac (Some ''secret'') env2
          (signed example_hmac ''secret'' success_tok2)
          (deliver env1 success_tok1 pending_tok1_tok2))) =
          subscriptions (deliver env1 success_tok1 pending_tok1_tok2) @ [(''sub2'', s)]
        \<and> sub_status s = active \<and> sub_user_id s = ''u1'')
   \<and> map sub_id (subscriptions_findActiveByUserId 3000
          (deliver env1 success_tok1 pending_tok1_tok2) (Some ''u1'')) = [''sub1'']"
proof -
  have l: "length (subscriptions (deliver env1 success_tok1 pending_tok1_tok2))
     < length (subscriptions (snd (webhook example_hmac (Some ''secret'') env2
          (signed example_hmac ''secret'' success_tok2)
          (deliver env1 success_tok1 pending_tok1_tok2))))"
    by (simp add: webhook_signed deliver_eval eval_defs)
  have ev: "rnd env2 0 = ''sub2''"
    "field (req_body (signed example_hmac ''secret'' success_tok2)) ''custom_param1'' = Some ''u1''"
    "map sub_id (subscriptions_findActiveByUserId 3000
          (deliver env1 success_tok1 pending_tok1_tok2) (Some ''u1'')) = [''sub1'']"
    by (simp_all add: deliver_eval eval_defs signed_def)
  from new_subscription_keeps_the_old [OF l] l ev show ?thesis
    by auto
qed

subsection \<open>Refund and failure notifications\<close>

lemma findByStripeId_subscriptions_updateStatus [simp]:
  "payments_findByStripeId (subscriptions_updateStatus t i st w) tok = payments_findByStripeId w tok"
  by (simp add: subscriptions_updateStatus_def)

lemma findByUserId_console_log [simp]:
  "subscriptions_findByUserId (console_log l w) u = subscriptions_findByUserId w u"
  by (simp add: subscriptions_findByUserId_def)

text \<open>The store applies every status it is asked for.\<close>

lemma payments_updateStatus_applies:
  assumes "map_of (payments w) i = Some pm"
  shows "map_of (payments (payments_updateStatus t i st w)) i =
           Some (pm\<lparr>pay_status := st, pay_updated_at := t\<rparr>)"
    and "j \<noteq> i \<Longrightarrow> map_of (payments (payments_updateStatus t i st w)) j = map_of (payments w) j"
  using assms by (simp_all add: payments_updateStatus_def map_of_map_entry)

text \<open>The effect of the failure handler and of the refund handler on a
  well-formed store.\<close>

lemma handlePaymentFailed_effect:
  assumes "wf_world w"
  shows "(case payments_findByStripeId w (field d ''token'') of
            None \<Rightarrow> payments (handlePaymentFailed e d w) = payments w
          | Some pm \<Rightarrow>
              map_of (payments (handlePaymentFailed e d w)) (pay_id pm) =
                Some (pm\<lparr>pay_status := failed, pay_updated_at := clock e\<rparr>)
              \<and> (\<forall>j. j \<noteq> pay_id pm \<longrightarrow>
                    map_of (payments (handlePaymentFailed e d w)) j = map_of (payments w) j))"
proof (cases "payments_findByStripeId w (field d ''token'')")
  case None
  then show ?thesis by (simp add: handlePaymentFailed_def Let_def)
next
  case (Some pm)
  from assms have "keyed_by pay_id (payments w)"
    by (simp add: wf_world_def)
  from keyed_by_find [OF this] Some have "map_of (payments w) (pay_id pm) = Some pm"
    by (simp add: payments_findByStripeId_def)
  with Some show ?thesis
    by (simp add: handlePaymentFailed_def Let_def payments_updateStatus_def map_of_map_entry)
qed

lemma handlePaymentRefunded_payments:
  assumes "wf_world w"
  shows "(case payments_findByStripeId w (field d ''token'') of
            None \<Rightarrow> payments (handlePaymentRefunded e d w) = payments w
          | Some pm \<Rightarrow>
              map_of (payments (handlePaymentRefunded e d w)) (pay_id pm) =
                Some (pm\<lparr>pay_status := refunded, pay_updated_at := clock e\<rparr>)
              \<and> (\<forall>j. j \<noteq> pay_id pm \<longrightarrow>
                    map_of (payments (handlePaymentRefunded e d w)) j = map_of (payments w) j))"
proof (cases "payments_findByStripeId w (field d ''token'')")
  case None
  then show ?thesis
    by (simp add: handlePaymentRefunded_def Let_def split: option.splits)
next
  case (Some pm)
  from assms have "keyed_by pay_id (payments w)"
    by (simp add: wf_world_def)
  from keyed_by_find [OF this] Some have "map_of (payments w) (pay_id pm) = Some pm"
    by (simp add: payments_findByStripeId_def)
  with Some show ?thesis
    by (auto simp add: handlePaymentRefunded_def Let_def payments_updateStatus_def
        map_of_map_entry split: option.splits)
qed

lemma handlePaymentRefunded_subscriptions:
  assumes "wf_world w"
  shows "(case find (\<lambda>s. Some (sub_plan_id s) = field d ''custom_param2'')
                 (subscriptions_findByUserId w (field d ''custom_param1'')) of
            None \<Rightarrow> subscriptions (handlePaymentRefunded e d w) = subscriptions w
          | Some s \<Rightarrow>
              map_of (subscriptions (handlePaymentRefunded e d w)) (sub_id s) =
                Some (s\<lparr>sub_status := canceled, sub_updated_at := clock e\<rparr>)
              \<and> (\<forall>j. j \<noteq> sub_id s \<longrightarrow>
                    map_of (subscriptions (handlePaymentRefunded e d w)) j =
                    map_of (subscriptions w) j))"
proof (cases "find (\<lambda>s. Some (sub_plan_id s) = field d ''custom_param2'')
                 (subscriptions_findByUserId w (field d ''custom_param1''))")
  case None
  then show ?thesis
    by (simp add: handlePaymentRefunded_def Let_def split: option.splits)
next
  case (Some s)
  then have "s \<in> set (subscriptions_findByUserId w (field d ''custom_param1''))"
    by (auto simp add: find_Some_iff)
  then have "s \<in> snd ` set (subscriptions w)"
    by (auto simp add: subscriptions_findByUserId_def)
  moreover from assms have "keyed_by sub_id (subscriptions w)"
    by (simp add: wf_world_def)
  ultimately have "map_of (subscriptions w) (sub_id s) = Some s"
    by (rule keyed_by_member [rotated])
  with Some show ?thesis
    by (auto simp add: handlePaymentRefunded_def Let_def subscriptions_updateStatus_def
        map_of_map_entry split: option.splits)
qed

lemma handlePaymentRefunded_audit:
  "auditLog (handlePaymentRefunded e d w) = auditLog w @
     [\<lparr>audit_id = rnd e 0, audit_user_id = field d ''custom_param1'', action = ''payment_refunded'',
       details =
         [(''paymentToken'', opt_str (field d ''token'')),
          (''planId'', opt_str (field d ''custom_param2'')),
          (''subscriptionId'',
             (case find (\<lambda>s. Some (sub_plan_id s) = field d ''custom_param2'')
                     (subscriptions_findByUserId w (field d ''custom_param1'')) of
                None \<Rightarrow> Undefined | Some s \<Rightarrow> Str (sub_id s)))],
       ip = ''unknown'', timestamp = clock e\<rparr>]"
  by (simp add: handlePaymentRefunded_def Let_def audit_log_def payments_updateStatus_def
      subscriptions_updateStatus_def split: option.splits)

lemma webhook_verified:
  assumes "verifyPayoneerSignature hmac secret (req_body req) (x_payoneer_signature req) = Inr True"
  shows "webhook hmac secret e req w =
     (Response 200 (ReceivedBody None),
      (let d = req_body req; st = field d ''status'';
           w1 = console_log (IPNEvent (field d ''action'') st) w
       in if st = Some ''success'' \<or> st = Some ''approved'' then handlePaymentSucceeded e d w1
          else if st = Some ''failed'' \<or> st = Some ''declined'' then handlePaymentFailed e d w1
          else if st = Some ''pending'' then handlePaymentPending e d w1
          else if st = Some ''refund'' then handlePaymentRefunded e d w1
          else console_log (UnknownStatus st) w1))"
  using assms by (simp add: webhook_def Let_def)

text \<open>
  Claim C7 as stated fails. User \<open>u1\<close> has paid for the plan \<^verbatim>\<open>starter\<close>
  with \<^verbatim>\<open>tok_1\<close> and has a second attempt for the same plan, \<^verbatim>\<open>tok_3\<close>,
  still pending. A verified refund notification for \<^verbatim>\<open>tok_3\<close> cancels the
  subscription that was paid with \<^verbatim>\<open>tok_1\<close>, and the pending attempt becomes
  refunded.
\<close>

theorem refund_of_pending_token_cancels:
  "map (\<lambda>(k, s). (k, stripe_subscription_id s, sub_status s))
      (subscriptions (deliver env1 success_tok1 pending_tok1_tok3)) =
      [(''sub1'', Some ''tok_1'', active)]
   \<and> map (\<lambda>(k, p). (k, stripe_payment_intent_id p, pay_status p))
      (payments (deliver env1 success_tok1 pending_tok1_tok3)) =
      [(''pay1'', ''tok_1'', completed), (''pay3'', ''tok_3'', pending)]
   \<and> map (\<lambda>(k, s). (k, stripe_subscription_id s, sub_status s))
      (subscriptions (deliver env2 refund_tok3 (deliver env1 success_tok1 pending_tok1_tok3))) =
      [(''sub1'', Some ''tok_1'', canceled)]
   \<and> map (\<lambda>(k, p). (k, stripe_payment_intent_id p, pay_status p))
      (payments (deliver env2 refund_tok3 (deliver env1 success_tok1 pending_tok1_tok3))) =
      [(''pay1'', ''tok_1'', completed), (''pay3'', ''tok_3'', refunded)]"
  by (simp add: deliver_eval eval_defs)

text \<open>
  Claim C7, amended. For every verified refund notification, in a reachable
  store: the handler locates the first subscription of the user the
  notification names whose plan is the plan the notification names; the token
  plays no part in this, nor does the status of any payment attempt. If there is
  such a subscription its status becomes canceled, and no other subscription
  changes. The payment attempt found for the token, if there is one, becomes
  refunded whatever its status was, and no other attempt changes. In every case
  one \<^verbatim>\<open>payment_refunded\<close> audit entry is appended and the notification is
  acknowledged with status 200.
\<close>

theorem refund_cancels_by_user_and_plan:
  assumes "reachable w"
    and "verifyPayoneerSignature hmac secret (req_body req) (x_payoneer_signature req) = Inr True"
    and "field (req_body req) ''status'' = Some ''refund''"
  shows "fst (webhook hmac secret e req w) = Response 200 (ReceivedBody None)
    \<and> (case find (\<lambda>s. Some (sub_plan_id s) = field (req_body req) ''custom_param2'')
               (subscriptions_findByUserId w (field (req_body req) ''custom_param1'')) of
          None \<Rightarrow> subscriptions (snd (webhook hmac secret e req w)) = subscriptions w
        | Some s \<Rightarrow>
            map_of (subscriptions (snd (webhook hmac secret e req w))) (sub_id s) =
              Some (s\<lparr>sub_status := canceled, sub_updated_at := clock e\<rparr>)
            \<and> (\<forall>j. j \<noteq> sub_id s \<longrightarrow>
                  map_of (subscriptions (snd (webhook hmac secret e req w))) j =
                  map_of (subscriptions w) j))
    \<and> (case payments_findByStripeId w (field (req_body req) ''token'') of
          None \<Rightarrow> payments (snd (webhook hmac secret e req w)) = payments w
        | Some pm \<Rightarrow>
            map_of (payments (snd (webhook hmac secret e req w))) (pay_id pm) =
              Some (pm\<lparr>pay_status := refunded, pay_updated_at := clock e\<rparr>)
            \<and> (\<forall>j. j \<noteq> pay_id pm \<longrightarrow>
                  map_of (payments (snd (webhook hmac secret e req w))) j = map_of (payments w) j))
    \<and> (\<exists>a. auditLog (snd (webhook hmac secret e req w)) = auditLog w @ [a]
           \<and> action a = ''payment_refunded''
           \<and> audit_user_id a = field (req_body req) ''custom_param1'')"
proof -
  let ?d = "req_body req"
  let ?w1 = "console_log (IPNEvent (field ?d ''action'') (field ?d ''status'')) w"
  have res: "webhook hmac secret e req w =
      (Response 200 (ReceivedBody None), handlePaymentRefunded e ?d ?w1)"
    using assms(2,3) by (simp add: webhook_verified Let_def)
  have wf: "wf_world ?w1"
    using reachable_wf [OF assms(1)] by simp
  have subs: "case find (\<lambda>s. Some (sub_plan_id s) = field ?d ''custom_param2'')
               (subscriptions_findByUserId w (field ?d ''custom_param1'')) of
          None \<Rightarrow> subscriptions (handlePaymentRefunded e ?d ?w1) = subscriptions w
        | Some s \<Rightarrow>
            map_of (subscriptions (handlePaymentRefunded e ?d ?w1)) (sub_id s) =
              Some (s\<lparr>sub_status := canceled, sub_updated_at := clock e\<rparr>)
            \<and> (\<forall>j. j \<noteq> sub_id s \<longrightarrow>
                  map_of (subscriptions (handlePaymentRefunded e ?d ?w1)) j =
                  map_of (subscriptions w) j)"
    using handlePaymentRefunded_subscriptions [OF wf, where d = ?d and e = e]
    by (simp split: option.splits)
  have pays: "case payments_findByStripeId w (field ?d ''token'') of
          None \<Rightarrow> payments (handlePaymentRefunded e ?d ?w1) = payments w
        | Some pm \<Rightarrow>
            map_of (payments (handlePaymentRefunded e ?d ?w1)) (pay_id pm) =
              Some (pm\<lparr>pay_status := refunded, pay_updated_at := clock e\<rparr>)
            \<and> (\<forall>j. j \<noteq> pay_id pm \<longrightarrow>
                  map_of (payments (handlePaymentRefunded e ?d ?w1)) j = map_of (payments w) j)"
    using handlePaymentRefunded_payments [OF wf, where d = ?d and e = e]
    by (simp split: option.splits)
  have log: "\<exists>a. auditLog (handlePaymentRefunded e ?d ?w1) = auditLog w @ [a]
           \<and> action a = ''payment_refunded''
           \<and> audit_user_id a = field ?d ''custom_param1''"
    by (simp add: handlePaymentRefunded_audit)
  show ?thesis
    unfolding res fst_conv snd_conv
    by (intro conjI refl subs pays log)
qed

theorem refund_cancels_witness:
  "reachable (deliver env1 success_tok1 pending_tok1_tok3)
   \<and> verifyPayoneerSignature example_hmac (Some ''secret'')
        (req_body (signed example_hmac ''secret'' refund_tok3))
        (x_payoneer_signature (signed example_hmac ''secret'' refund_tok3)) = Inr True
   \<and> field (req_body (signed example_hmac ''secret'' refund_tok3)) ''status'' = Some ''refund''
   \<and> fst (webhook example_hmac (Some ''secret'') env2 (signed example_hmac ''secret'' refund_tok3)
        (deliver env1 success_tok1 pending_tok1_tok3)) = Response 200 (ReceivedBody None)
   \<and> (\<exists>a. auditLog (snd (webhook example_hmac (Some ''secret'') env2
               (signed example_hmac ''secret'' refund_tok3)
               (deliver env1 success_tok1 pending_tok1_tok3))) =
             auditLog (deliver env1 success_tok1 pending_tok1_tok3) @ [a]
          \<and> action a = ''payment_refunded'')"
proof -
  have r: "reachable (deliver env1 success_tok1 pending_tok1_tok3)"
    by (intro reachable_deliver reachable_examples)
  have v: "verifyPayoneerSignature example_hmac (Some ''secret'')
        (req_body (signed example_hmac ''secret'' refund_tok3))
        (x_payoneer_signature (signed example_hmac ''secret'' refund_tok3)) = Inr True"
    by (rule verify_signed)
  have s: "field (req_body (signed example_hmac ''secret'' refund_tok3)) ''status'' = Some ''refund''"
    by (simp add: signed_def refund_tok3_def field_def)
  from refund_cancels_by_user_and_plan [OF r v s, of env2] r v s show ?thesis
    by blast
qed

text \<open>
  Claim C8 as stated fails. The payment attempt for \<^verbatim>\<open>tok_1\<close> is completed;
  a verified failure notification for the token follows, and the attempt is
  failed: the transition from completed to failed is applied, not rejected.
\<close>

theorem completed_attempt_becomes_failed:
  "map (\<lambda>(k, p). (k, stripe_payment_intent_id p, pay_status p))
      (payments (deliver env1 success_tok1 pending_tok1)) = [(''pay1'', ''tok_1'', completed)]
   \<and> map (\<lambda>(k, p). (k, stripe_payment_intent_id p, pay_status p))
      (payments (deliver env2 failed_tok1 (deliver env1 success_tok1 pending_tok1))) =
      [(''pay1'', ''tok_1'', failed)]"
  by (simp add: deliver_eval eval_defs)

text \<open>
  Claim C8, amended. No transition of a payment attempt is rejected. The store
  operation \<^verbatim>\<open>db.payments.updateStatus\<close> overwrites the status of the attempt
  with the one requested, whatever the current status, also when they are the
  same (only \<^verbatim>\<open>updated_at\<close> is rewritten then). In a reachable store, after a
  verified failure notification the attempt found for its token is failed, and
  after a verified refund notification it is refunded, whatever its status was
  before.
\<close>

theorem requested_status_is_applied:
  assumes "reachable w"
    and "verifyPayoneerSignature hmac secret (req_body req) (x_payoneer_signature req) = Inr True"
    and "payments_findByStripeId w (field (req_body req) ''token'') = Some pm"
  shows "(\<forall>t st. map_of (payments (payments_updateStatus t (pay_id pm) st w)) (pay_id pm) =
              Some (pm\<lparr>pay_status := st, pay_updated_at := t\<rparr>))
    \<and> (field (req_body req) ''status'' = Some ''failed''
          \<or> field (req_body req) ''status'' = Some ''declined''
        \<longrightarrow> map_of (payments (snd (webhook hmac secret e req w))) (pay_id pm) =
              Some (pm\<lparr>pay_status := failed, pay_updated_at := clock e\<rparr>))
    \<and> (field (req_body req) ''status'' = Some ''refund''
        \<longrightarrow> map_of (payments (snd (webhook hmac secret e req w))) (pay_id pm) =
              Some (pm\<lparr>pay_status := refunded, pay_updated_at := clock e\<rparr>))"
proof -
  let ?d = "req_body req"
  let ?w1 = "console_log (IPNEvent (field ?d ''action'') (field ?d ''status'')) w"
  have wf: "wf_world ?w1" "wf_world w"
    using reachable_wf [OF assms(1)] by simp_all
  then have "keyed_by pay_id (payments w)"
    by (simp add: wf_world_def)
  from keyed_by_find [OF this] assms(3) have stored: "map_of (payments w) (pay_id pm) = Some pm"
    by (simp add: payments_findByStripeId_def)
  have found: "payments_findByStripeId ?w1 (field ?d ''token'') = Some pm"
    using assms(3) by simp
  have a: "\<forall>t st. map_of (payments (payments_updateStatus t (pay_id pm) st w)) (pay_id pm) =
              Some (pm\<lparr>pay_status := st, pay_updated_at := t\<rparr>)"
    using payments_updateStatus_applies(1) [OF stored] by simp
  have b: "map_of (payments (handlePaymentFailed e ?d ?w1)) (pay_id pm) =
      Some (pm\<lparr>pay_status := failed, pay_updated_at := clock e\<rparr>)"
    using handlePaymentFailed_effect [OF wf(1), where d = ?d and e = e] found by simp
  have c: "map_of (payments (handlePaymentRefunded e ?d ?w1)) (pay_id pm) =
      Some (pm\<lparr>pay_status := refunded, pay_updated_at := clock e\<rparr>)"
    using handlePaymentRefunded_payments [OF wf(1), where d = ?d and e = e] found by simp
  show ?thesis
    using a b c assms(2) by (auto simp add: webhook_verified Let_def)
qed

theorem requested_status_witness:
  "reachable (deliver env1 success_tok1 pending_tok1)
   \<and> verifyPayoneerSignature example_hmac (Some ''secret'')
        (req_body (signed example_hmac ''secret'' failed_tok1))
        (x_payoneer_signature (signed example_hmac ''secret'' failed_tok1)) = Inr True
   \<and> payments_findByStripeId (deliver env1 success_tok1 pending_tok1)
        (field (req_body (signed example_hmac ''secret'' failed_tok1)) ''token'') =
      Some \<lparr>pay_id = ''pay1'', pay_user_id = ''u1'', pay_plan_id = ''starter'',
            stripe_payment_intent_id = ''tok_1'', pay_amount = Some 9800,
            pay_status = completed, pay_created_at = 10, pay_updated_at = 1000\<rparr>
   \<and> field (req_body (signed example_hmac ''secret'' failed_tok1)) ''status'' = Some ''failed''
   \<and> map_of (payments (snd (webhook example_hmac (Some ''secret'') env2
          (signed example_hmac ''secret'' failed_tok1) (deliver env1 success_tok1 pending_tok1))))
        ''pay1'' =
      Some \<lparr>pay_id = ''pay1'', pay_user_id = ''u1'', pay_plan_id = ''starter'',
            stripe_payment_intent_id = ''tok_1'', pay_amount = Some 9800,
            pay_status = failed, pay_created_at = 10, pay_updated_at = 2000\<rparr>"
proof -
  have r: "reachable (deliver env1 success_tok1 pending_tok1)"
    by (intro reachable_deliver reachable_examples)
  have v: "verifyPayoneerSignature example_hmac (Some ''secret'')
        (req_body (signed example_hmac ''secret'' failed_tok1))
        (x_payoneer_signature (signed example_hmac ''secret'' failed_tok1)) = Inr True"
    by (rule verify_signed)
  have f: "payments_findByStripeId (deliver env1 success_tok1 pending_tok1)
        (field (req_body (signed example_hmac ''secret'' failed_tok1)) ''token'') =
      Some \<lparr>pay_id = ''pay1'', pay_user_id = ''u1'', pay_plan_id = ''starter'',
            stripe_payment_intent_id = ''tok_1'', pay_amount = Some 9800,
            pay_status = completed, pay_created_at = 10, pay_updated_at = 1000\<rparr>"
    by (simp add: deliver_eval eval_defs signed_def)
  have s: "field (req_body (signed example_hmac ''secret'' failed_tok1)) ''status'' = Some ''failed''"
    by (simp add: signed_def failed_tok1_def field_def)
  have c: "clock env2 = 2000"
    by (simp add: env2_def)
  from requested_status_is_applied [OF r v f, of env2] r v f s c show ?thesis
    by simp
qed

subsection \<open>Repeated delivery when the payment attempt is on record\<close>

lemma find_map_entry:
  assumes "keyed_by ident al" and "\<And>v. P (f v) = P v" and "\<And>v. ident (f v) = ident v"
  shows "find P (map snd (AList.map_entry k f al)) =
     map_option (\<lambda>v. if ident v = k then f v else v) (find P (map snd al))"
  using assms(1)
proof (induction al)
  case Nil
  show ?case by simp
next
  case (Cons a al)
  obtain k' v where a: "a = (k', v)" by (cases a)
  from Cons.prems have tail: "keyed_by ident al" and key: "ident v = k'"
    by (simp_all add: keyed_by_def a)
  show ?case
  proof (cases "k' = k")
    case True
    have other: "ident v' \<noteq> k" if "v' \<in> set (map snd al)" for v'
    proof -
      from that obtain k'' where in_al: "(k'', v') \<in> set al" by auto
      with tail have "ident v' = k''"
        by (auto simp add: keyed_by_def list_all_iff)
      moreover from Cons.prems in_al have "k'' \<noteq> k'"
        by (force simp add: keyed_by_def a)
      ultimately show ?thesis using True by simp
    qed
    have "map_option (\<lambda>v. if ident v = k then f v else v) (find P (map snd al)) =
        find P (map snd al)"
    proof (cases "find P (map snd al)")
      case None
      then show ?thesis by simp
    next
      case (Some v')
      then have "v' \<in> set (map snd al)"
        by (auto simp add: find_Some_iff)
      from other [OF this] Some show ?thesis by simp
    qed
    with key True show ?thesis
      by (simp add: a assms(2))
  next
    case False
    with key Cons.IH [OF tail] show ?thesis
      by (simp add: a)
  qed
qed

text \<open>
  Where the payment attempt for the token is on record, the handler is
  idempotent: after a delivery that created a subscription, the attempt is
  completed, and a further delivery of the same notification, at any time and
  with any identifiers drawn, writes nothing to the three stores.
\<close>

lemma second_delivery_skipped_with_attempt:
  assumes "reachable w"
    and "payments_findByStripeId w (field d ''token'') = Some pm"
    and "subscriptions (handlePaymentSucceeded e d w) \<noteq> subscriptions w"
  shows "subscriptions (handlePaymentSucceeded e' d (handlePaymentSucceeded e d w)) =
           subscriptions (handlePaymentSucceeded e d w)
       \<and> payments (handlePaymentSucceeded e' d (handlePaymentSucceeded e d w)) =
           payments (handlePaymentSucceeded e d w)
       \<and> auditLog (handlePaymentSucceeded e' d (handlePaymentSucceeded e d w)) =
           auditLog (handlePaymentSucceeded e d w)"
proof -
  let ?w' = "handlePaymentSucceeded e d w"
  let ?f = "\<lambda>payment. payment\<lparr>pay_status := completed, pay_updated_at := clock e\<rparr>"
  from succeeded_cases [OF assms(3)] obtain p where
    t: "truthy (field d ''custom_param1'')" "truthy (field d ''custom_param2'')"
       "truthy (field d ''amount'')"
    and eq: "?w' =
       create_subscription e (field d ''custom_param1'') (field d ''custom_param2'')
         (field d ''token'') (Some (price p)) p (payments_findByStripeId w (field d ''token''))
         (console_log (PaymentSucceeded (field d ''token'') (field d ''custom_param1'')) w)"
    by auto
  have pays: "payments ?w' = AList.map_entry (pay_id pm) ?f (payments w)"
    by (subst eq) (simp add: create_subscription_store assms(2))
  from reachable_wf [OF assms(1)] have "keyed_by pay_id (payments w)"
    by (simp add: wf_world_def)
  then have "find (\<lambda>payment. Some (stripe_payment_intent_id payment) = field d ''token'')
        (map snd (AList.map_entry (pay_id pm) ?f (payments w))) =
      map_option (\<lambda>v. if pay_id v = pay_id pm then ?f v else v)
        (find (\<lambda>payment. Some (stripe_payment_intent_id payment) = field d ''token'')
           (map snd (payments w)))"
    by (rule find_map_entry) simp_all
  with assms(2) pays have "payments_findByStripeId ?w' (field d ''token'') = Some (?f pm)"
    by (simp add: payments_findByStripeId_def)
  with t have "handlePaymentSucceeded e' d ?w' =
      console_log (AlreadyProcessed (field d ''token''))
        (console_log (PaymentSucceeded (field d ''token'') (field d ''custom_param1'')) ?w')"
    by (simp add: handlePaymentSucceeded_def [of e' d ?w'] Let_def)
  then show ?thesis by simp
qed

subsection \<open>Where subscriptions are created\<close>

lemma map_map_entry:
  assumes "\<And>k v. g (k, f v) = g (k, v)"
  shows "map g (AList.map_entry k0 f al) = map g al"
  by (induction al) (auto simp add: assms)

text \<open>The refund handler adds no record and replaces none: every record keeps
  its place and all its fields but the status and the time of the update.\<close>

lemma refunded_keeps_records:
  "map (\<lambda>(k, s). (k, sub_id s, sub_user_id s, sub_plan_id s, stripe_subscription_id s,
              expires_at s, sub_created_at s)) (subscriptions (handlePaymentRefunded e d w)) =
   map (\<lambda>(k, s). (k, sub_id s, sub_user_id s, sub_plan_id s, stripe_subscription_id s,
              expires_at s, sub_created_at s)) (subscriptions w)"
  by (simp add: handlePaymentRefunded_def Let_def subscriptions_updateStatus_def map_map_entry
      split: option.splits)

lemma webhook_changes_store:
  assumes "subscriptions (snd (webhook hmac secret e req w)) \<noteq> subscriptions w"
  shows "verifyPayoneerSignature hmac secret (req_body req) (x_payoneer_signature req) = Inr True
       \<and> ((field (req_body req) ''status'' = Some ''refund''
             \<and> snd (webhook hmac secret e req w) =
                 handlePaymentRefunded e (req_body req)
                   (console_log (IPNEvent (field (req_body req) ''action'')
                      (field (req_body req) ''status'')) w))
           \<or> ((field (req_body req) ''status'' = Some ''success''
                 \<or> field (req_body req) ''status'' = Some ''approved'')
               \<and> snd (webhook hmac secret e req w) =
                   handlePaymentSucceeded e (req_body req)
                     (console_log (IPNEvent (field (req_body req) ''action'')
                        (field (req_body req) ''status'')) w)))"
proof (cases "verifyPayoneerSignature hmac secret (req_body req) (x_payoneer_signature req)")
  case (Inl err)
  with assms show ?thesis by (simp add: webhook_def)
next
  case (Inr ok)
  show ?thesis
  proof (cases ok)
    case False
    with Inr assms show ?thesis by (simp add: webhook_def)
  next
    case True
    let ?st = "field (req_body req) ''status''"
    have "?st = Some ''success'' \<or> ?st = Some ''approved'' \<or> ?st = Some ''refund''"
    proof (rule ccontr)
      assume "\<not> ?thesis"
      with Inr True have "subscriptions (snd (webhook hmac secret e req w)) = subscriptions w"
        by (simp add: webhook_def Let_def)
      with assms show False by simp
    qed
    with Inr True show ?thesis
      by (auto simp add: webhook_def Let_def)
  qed
qed

text \<open>
  Claim C3, amended. A subscription record is created by the end of the
  payment-success handler only. Whenever the delivery of a notification changes
  the subscription store of a reachable store, the notification is verified,
  and
  \<^item> either it is a refund notification, and then no record is added or
    replaced: every record keeps all its fields but the status and the time of
    the update;
  \<^item> or it is a payment-success notification, and then one new active record
    for the token of the notification is stored under the identifier drawn;
    if there is a payment attempt for the token, that attempt was not
    completed before and is completed after the step; if there is none, the
    subscription is created all the same and no payment attempt changes.
\<close>

theorem subscription_created_only_by_success:
  assumes "reachable w"
    and "subscriptions (snd (webhook hmac secret e req w)) \<noteq> subscriptions w"
  shows "verifyPayoneerSignature hmac secret (req_body req) (x_payoneer_signature req) = Inr True
    \<and> ((field (req_body req) ''status'' = Some ''refund''
          \<and> map (\<lambda>(k, s). (k, sub_id s, sub_user_id s, sub_plan_id s, stripe_subscription_id s,
                     expires_at s, sub_created_at s))
               (subscriptions (snd (webhook hmac secret e req w))) =
             map (\<lambda>(k, s). (k, sub_id s, sub_user_id s, sub_plan_id s, stripe_subscription_id s,
                     expires_at s, sub_created_at s)) (subscriptions w))
        \<or> ((field (req_body req) ''status'' = Some ''success''
               \<or> field (req_body req) ''status'' = Some ''approved'')
            \<and> (\<exists>s. subscriptions (snd (webhook hmac secret e req w)) =
                      AList.update (rnd e 0) s (subscriptions w)
                   \<and> sub_id s = rnd e 0 \<and> sub_status s = active
                   \<and> stripe_subscription_id s = field (req_body req) ''token'')
            \<and> (case payments_findByStripeId w (field (req_body req) ''token'') of
                  None \<Rightarrow> payments (snd (webhook hmac secret e req w)) = payments w
                | Some pm \<Rightarrow>
                    pay_status pm \<noteq> completed
                    \<and> map_of (payments (snd (webhook hmac secret e req w))) (pay_id pm) =
                        Some (pm\<lparr>pay_status := completed, pay_updated_at := clock e\<rparr>))))"
proof -
  let ?d = "req_body req"
  let ?w1 = "console_log (IPNEvent (field ?d ''action'') (field ?d ''status'')) w"
  let ?w' = "snd (webhook hmac secret e req w)"
  note wh = webhook_changes_store [OF assms(2)]
  then have verified:
    "verifyPayoneerSignature hmac secret ?d (x_payoneer_signature req) = Inr True"
    by simp
  from wh consider
    (refund) "field ?d ''status'' = Some ''refund''"
      "?w' = handlePaymentRefunded e ?d ?w1"
    | (success) "field ?d ''status'' = Some ''success'' \<or> field ?d ''status'' = Some ''approved''"
      "?w' = handlePaymentSucceeded e ?d ?w1"
    by blast
  then show ?thesis
  proof cases
    case refund
    have "map (\<lambda>(k, s). (k, sub_id s, sub_user_id s, sub_plan_id s, stripe_subscription_id s,
                 expires_at s, sub_created_at s)) (subscriptions ?w') =
          map (\<lambda>(k, s). (k, sub_id s, sub_user_id s, sub_plan_id s, stripe_subscription_id s,
                 expires_at s, sub_created_at s)) (subscriptions w)"
      unfolding refund(2) using refunded_keeps_records [of e ?d ?w1] by simp
    with verified refund(1) show ?thesis by blast
  next
    case success
    from success(2) assms(2)
    have "subscriptions (handlePaymentSucceeded e ?d ?w1) \<noteq> subscriptions ?w1"
      by simp
    from succeeded_cases [OF this] obtain p where
      nc: "\<forall>pm. payments_findByStripeId w (field ?d ''token'') = Some pm
              \<longrightarrow> pay_status pm \<noteq> completed"
      and eq: "handlePaymentSucceeded e ?d ?w1 =
         create_subscription e (field ?d ''custom_param1'') (field ?d ''custom_param2'')
           (field ?d ''token'') (Some (price p)) p (payments_findByStripeId w (field ?d ''token''))
           (console_log (PaymentSucceeded (field ?d ''token'') (field ?d ''custom_param1'')) ?w1)"
      by auto
    define s where "s =
       \<lparr>sub_id = rnd e 0, sub_user_id = str_of (field ?d ''custom_param1''),
        sub_plan_id = str_of (field ?d ''custom_param2''),
        stripe_subscription_id = field ?d ''token'', sub_status = active,
        expires_at = plus_days e (clock e) (duration_days p),
        sub_created_at = clock e, sub_updated_at = clock e\<rparr>"
    have subs: "subscriptions ?w' = AList.update (rnd e 0) s (subscriptions w)"
      unfolding success(2) eq by (simp add: create_subscription_store s_def)
    have new: "\<exists>s. subscriptions ?w' = AList.update (rnd e 0) s (subscriptions w)
        \<and> sub_id s = rnd e 0 \<and> sub_status s = active
        \<and> stripe_subscription_id s = field ?d ''token''"
      using subs by (intro exI [of _ s]) (simp add: s_def)
    have pays: "payments ?w' =
        (case payments_findByStripeId w (field ?d ''token'') of
           None \<Rightarrow> payments w
         | Some x \<Rightarrow>
             AList.map_entry (pay_id x)
               (\<lambda>payment. payment\<lparr>pay_status := completed, pay_updated_at := clock e\<rparr>)
               (payments w))"
      unfolding success(2) eq by (simp add: create_subscription_store split: option.splits)
    have attempt: "case payments_findByStripeId w (field ?d ''token'') of
            None \<Rightarrow> payments ?w' = payments w
          | Some pm \<Rightarrow>
              pay_status pm \<noteq> completed
              \<and> map_of (payments ?w') (pay_id pm) =
                  Some (pm\<lparr>pay_status := completed, pay_updated_at := clock e\<rparr>)"
    proof (cases "payments_findByStripeId w (field ?d ''token'')")
      case None
      with pays show ?thesis by simp
    next
      case (Some pm)
      from reachable_wf [OF assms(1)] have "keyed_by pay_id (payments w)"
        by (simp add: wf_world_def)
      from keyed_by_find [OF this] Some have "map_of (payments w) (pay_id pm) = Some pm"
        by (simp add: payments_findByStripeId_def)
      with Some pays nc show ?thesis
        by (simp add: map_of_map_entry)
    qed
    from verified success(1) new attempt show ?thesis by blast
  qed
qed

theorem subscription_created_witness:
  "reachable pending_tok1
   \<and> subscriptions (snd (webhook example_hmac (Some ''secret'') env1
         (signed example_hmac ''secret'' success_tok1) pending_tok1)) \<noteq> subscriptions pending_tok1
   \<and> field (req_body (signed example_hmac ''secret'' success_tok1)) ''status'' = Some ''success''
   \<and> map (\<lambda>(k, p). (k, stripe_payment_intent_id p, pay_status p)) (payments pending_tok1) =
        [(''pay1'', ''tok_1'', pending)]
   \<and> map (\<lambda>(k, p). (k, stripe_payment_intent_id p, pay_status p))
        (payments (snd (webhook example_hmac (Some ''secret'') env1
             (signed example_hmac ''secret'' success_tok1) pending_tok1))) =
        [(''pay1'', ''tok_1'', completed)]
   \<and> verifyPayoneerSignature example_hmac (Some ''secret'')
        (req_body (signed example_hmac ''secret'' success_tok1))
        (x_payoneer_signature (signed example_hmac ''secret'' success_tok1)) = Inr True"
proof -
  have r: "reachable pending_tok1"
    by (rule reachable_examples)
  have l: "subscriptions (snd (webhook example_hmac (Some ''secret'') env1
         (signed example_hmac ''secret'' success_tok1) pending_tok1)) \<noteq> subscriptions pending_tok1"
    by (simp add: webhook_signed eval_defs)
  have ev: "map (\<lambda>(k, p). (k, stripe_payment_intent_id p, pay_status p)) (payments pending_tok1) =
        [(''pay1'', ''tok_1'', pending)]"
     "map (\<lambda>(k, p). (k, stripe_payment_intent_id p, pay_status p))
        (payments (snd (webhook example_hmac (Some ''secret'') env1
             (signed example_hmac ''secret'' success_tok1) pending_tok1))) =
        [(''pay1'', ''tok_1'', completed)]"
    by (simp_all add: webhook_signed eval_defs)
  have st: "field (req_body (signed example_hmac ''secret'' success_tok1)) ''status'' = Some ''success''"
    by (simp add: signed_def success_tok1_def field_def)
  from subscription_created_only_by_success [OF r l] r l ev st show ?thesis
    by blast
qed

subsection \<open>What the signature is computed over\<close>










end
